theory Spec2Isabelle
  imports Main
begin

section \<open>JavaScript values used by the command handlers\<close>

text \<open>
  Strings are byte strings: a character outside ASCII stands as its UTF-8 bytes.
  An optional argument of the command line (a field typed \<open>string | undefined\<close>) is a
  \<open>string option\<close>. JavaScript's truthiness test \<open>!x\<close> treats \<open>undefined\<close> and the
  empty string alike.
\<close>

definition truthy :: "string \<Rightarrow> bool" where
  "truthy s = (s \<noteq> [])"

fun truthy_opt :: "string option \<Rightarrow> bool" where
  "truthy_opt None = False"
| "truthy_opt (Some s) = truthy s"

text \<open>\<open>a || b\<close> on an optional string and a default.\<close>

fun or_else :: "string option \<Rightarrow> string \<Rightarrow> string" where
  "or_else None d = d"
| "or_else (Some s) d = (if truthy s then s else d)"

text \<open>Decimal rendering of a non-negative integer, as template strings do it.\<close>

definition digit_char :: "nat \<Rightarrow> char" where
  "digit_char d = ''0123456789'' ! (d mod 10)"

function string_of_nat :: "nat \<Rightarrow> string" where
  "string_of_nat n =
     (if n < 10 then [digit_char n] else string_of_nat (n div 10) @ [digit_char (n mod 10)])"
  by pat_completeness auto
termination
  by (relation "measure id") auto

declare string_of_nat.simps [simp del]

definition string_of_int :: "int \<Rightarrow> string" where
  "string_of_int i = (if i < 0 then CHR ''-'' # string_of_nat (nat (- i)) else string_of_nat (nat i))"

section \<open>utils.ts\<close>

subsection \<open>formatBytes\<close>

text \<open>
  \<open>formatBytes\<close> is applied to byte counts, which are non-negative integers here. The
  source computes in IEEE doubles. For a byte count \<open>bytes\<close> with \<open>25 * bytes < 2 ^ 53\<close>
  every arithmetic step of the source is exact: \<open>Math.pow(k, i)\<close> is a power of two, the
  quotient by it is exact, and its hundredfold \<open>25 * bytes / 2 ^ (10 * i - 2)\<close> is a double;
  the quotient of the two logarithms stays away from an integer by much more than the
  error of \<open>Math.log\<close>, except at the powers of 1024, where the repository's tests fix the
  result. In that range the model computes the same values in exact arithmetic. Beyond
  it the doubles round (and the unit table ends); the model does not compute those
  results: they are its parameter \<open>in_doubles\<close>, the value of the source's expression in
  doubles.

  \<^verbatim>\<open>Math.floor(Math.log(bytes) / Math.log(k))\<close> for an integer \<open>bytes \<ge> 1\<close>: the number of
  times \<open>bytes\<close> can be divided by \<open>k\<close> before it drops below \<open>k\<close>.
\<close>

function log_floor :: "nat \<Rightarrow> nat \<Rightarrow> nat" where
  "log_floor k n = (if k < 2 \<or> n < k then 0 else Suc (log_floor k (n div k)))"
  by pat_completeness auto
termination
  by (relation "measure snd") auto

declare log_floor.simps [simp del]

definition sizes :: "string list" where
  "sizes = [''B'', ''KB'', ''MB'', ''GB'', ''TB'']"

text \<open>\<open>sizes[i]\<close> inside a string concatenation: out of range it reads \<open>undefined\<close>.\<close>

definition sizes_at :: "nat \<Rightarrow> string" where
  "sizes_at i = (if i < length sizes then sizes ! i else ''undefined'')"

text \<open>
  \<^verbatim>\<open>Math.round((bytes / Math.pow(k, i)) * 100)\<close>: the quotient in hundredths, rounded
  half up.
\<close>

definition round_hundredths :: "nat \<Rightarrow> nat \<Rightarrow> nat" where
  "round_hundredths bytes p = (2 * (bytes * 100) + p) div (2 * p)"

text \<open>
  The number \<open>h / 100\<close> as JavaScript prints it: no fraction when it is whole, otherwise
  the fraction without a trailing zero.
\<close>

definition string_of_hundredths :: "nat \<Rightarrow> string" where
  "string_of_hundredths h =
     (let whole = h div 100; frac = h mod 100 in
      if frac = 0 then string_of_nat whole
      else if frac mod 10 = 0 then string_of_nat whole @ ''.'' @ [digit_char (frac div 10)]
      else string_of_nat whole @ ''.'' @ [digit_char (frac div 10), digit_char (frac mod 10)])"

text \<open>The byte counts for which the doubles of the source are exact.\<close>

definition exact_in_doubles :: "nat \<Rightarrow> bool" where
  "exact_in_doubles bytes = (25 * bytes < 2 ^ 53)"

definition formatBytes :: "(nat \<Rightarrow> string) \<Rightarrow> nat \<Rightarrow> string" where
  "formatBytes in_doubles bytes =
     (if bytes = 0 then ''0 B''
      else if exact_in_doubles bytes then
        let k = 1024;
            i = log_floor k bytes
        in string_of_hundredths (round_hundredths bytes (k ^ i)) @ '' '' @ sizes_at i
      else in_doubles bytes)"

subsection \<open>getContentType\<close>

text \<open>
  Node's \<open>path.basename\<close> (POSIX flavour, no suffix argument): trailing slashes are
  dropped, and what follows the last remaining slash is returned.
\<close>

definition is_slash :: "char \<Rightarrow> bool" where
  "is_slash c = (c = CHR ''/'')"

definition path_basename :: "string \<Rightarrow> string" where
  "path_basename p = rev (takeWhile (\<lambda>c. \<not> is_slash c) (dropWhile is_slash (rev p)))"

text \<open>
  Node's \<open>path.extname\<close> (POSIX flavour): from the last dot of the base name to its end;
  empty when the base name has no dot, when its only dot is its first character, or when
  it is \<open>..\<close>.
\<close>

definition is_dot :: "char \<Rightarrow> bool" where
  "is_dot c = (c = CHR ''.'')"

definition path_extname :: "string \<Rightarrow> string" where
  "path_extname p =
     (let b = path_basename p;
          tail = takeWhile (\<lambda>c. \<not> is_dot c) (rev b)
      in if length tail = length b then []
         else if Suc (length tail) = length b then []
         else if b = ''..'' then []
         else CHR ''.'' # rev tail)"

text \<open>\<open>String.prototype.toLowerCase\<close>, on the ASCII letters.\<close>

definition lower_char :: "char \<Rightarrow> char" where
  "lower_char c =
     (let n = (of_char c :: nat) in if 65 \<le> n \<and> n \<le> 90 then char_of (n + 32) else c)"

definition toLowerCase :: "string \<Rightarrow> string" where
  "toLowerCase s = map lower_char s"

definition mimeTypes :: "(string \<times> string) list" where
  "mimeTypes =
     [(''.jpg'', ''image/jpeg''),
      (''.jpeg'', ''image/jpeg''),
      (''.png'', ''image/png''),
      (''.gif'', ''image/gif''),
      (''.webp'', ''image/webp''),
      (''.pdf'', ''application/pdf''),
      (''.json'', ''application/json''),
      (''.txt'', ''text/plain''),
      (''.mp4'', ''video/mp4''),
      (''.mp3'', ''audio/mpeg'')]"

definition getContentType :: "string \<Rightarrow> string" where
  "getContentType filename =
     (let ext = toLowerCase (path_extname filename) in
      case map_of mimeTypes ext of
        None \<Rightarrow> ''application/octet-stream''
      | Some t \<Rightarrow> if truthy t then t else ''application/octet-stream'')"

section \<open>The storage client, the file system and the logger\<close>

text \<open>
  The handlers talk to three collaborators that are not part of the repository's logic:
  the storage client (\<open>@supabase/storage-js\<close>), Node's \<open>fs\<close>, and the logger. A run of a
  handler is modelled by the list of effects it performs, in order, and by how it ends.
\<close>

text \<open>A thrown or returned JavaScript \<open>Error\<close>, with its \<open>message\<close>.\<close>

datatype js_error = JsError (message: string)

type_synonym buffer = "char list"

text \<open>The values the client returns, with the fields the handlers read.\<close>

record bucket =
  b_id :: string
  b_name :: string
  b_public :: bool
  b_created_at :: string
  b_updated_at :: string
  b_file_size_limit :: "nat option"
  b_allowed_mime_types :: "string list option"

record file_object =
  f_id :: "string option"
  f_name :: string
  f_size :: "nat option"
  f_updated_at :: "string option"

record file_info =
  i_name :: string
  i_id :: string
  i_bucketId :: string
  i_size :: "nat option"
  i_mimetype :: "string option"
  i_cacheControl :: "string option"
  i_eTag :: "string option"
  i_createdAt :: string
  i_updatedAt :: string
  i_lastAccessedAt :: "string option"

record stored =
  stored_path :: string

record signed_item =
  s_error :: "string option"
  s_path :: "string option"
  s_signedUrl :: "string option"

record signed_upload =
  su_path :: string
  su_token :: string
  su_signedUrl :: string

text \<open>A value that is only passed on to \<open>JSON.stringify\<close>.\<close>

datatype json =
    JNull
  | JBool bool
  | JNum int
  | JStr string
  | JArr "json list"
  | JObj "(string \<times> json) list"

text \<open>The \<open>--download\<close> option: \<open>boolean | string\<close>, or absent.\<close>

datatype download_opt = DlBool bool | DlString string

fun truthy_download :: "download_opt option \<Rightarrow> bool" where
  "truthy_download None = False"
| "truthy_download (Some (DlBool b)) = b"
| "truthy_download (Some (DlString s)) = truthy s"

text \<open>
  The operations of the client, with their arguments. \<open>client.from(bucket).op(...)\<close> is
  the operation with the bucket as its first argument. An options object that the source
  passes only when \<open>download\<close> is defined is the optional last argument.
\<close>

datatype client_call =
    ListBuckets
  | CreateBucket string bool
  | GetBucket string
  | UpdateBucket string bool
  | EmptyBucket string
  | DeleteBucket string
  | Upload string string buffer bool string
  | Download string string
  | ListFiles string string int "string option"
  | Remove string "string list"
  | Move string string string
  | Copy string string string
  | Info string string
  | Exists string string
  | Update string string buffer bool string
  | GetPublicUrl string string "download_opt option"
  | CreateSignedUrl string string int "download_opt option"
  | CreateSignedUploadUrl string string
  | CreateSignedUrls string "string list" int "download_opt option"

text \<open>
  What the surroundings answer. A client operation returns \<open>{ data, error }\<close>: \<open>Inl\<close> is a
  set \<open>error\<close>, \<open>Inr\<close> the \<open>data\<close>. \<open>exists\<close> returns its boolean together with an optional
  error; \<open>getPublicUrl\<close> is computed locally and has no error. \<open>doubles_formatBytes\<close> is
  what the JavaScript engine computes for \<open>formatBytes\<close> beyond the exact range.
\<close>

record world =
  api_listBuckets :: "js_error + bucket list"
  api_createBucket :: "string \<Rightarrow> bool \<Rightarrow> js_error + json"
  api_getBucket :: "string \<Rightarrow> js_error + bucket"
  api_updateBucket :: "string \<Rightarrow> bool \<Rightarrow> js_error + json"
  api_emptyBucket :: "string \<Rightarrow> js_error + json"
  api_deleteBucket :: "string \<Rightarrow> js_error + json"
  api_upload :: "string \<Rightarrow> string \<Rightarrow> buffer \<Rightarrow> bool \<Rightarrow> string \<Rightarrow> js_error + stored"
  api_download :: "string \<Rightarrow> string \<Rightarrow> js_error + buffer"
  api_list :: "string \<Rightarrow> string \<Rightarrow> int \<Rightarrow> string option \<Rightarrow> js_error + file_object list"
  api_remove :: "string \<Rightarrow> string list \<Rightarrow> js_error + file_object list"
  api_move :: "string \<Rightarrow> string \<Rightarrow> string \<Rightarrow> js_error + json"
  api_copy :: "string \<Rightarrow> string \<Rightarrow> string \<Rightarrow> js_error + json"
  api_info :: "string \<Rightarrow> string \<Rightarrow> js_error + file_info"
  api_exists :: "string \<Rightarrow> string \<Rightarrow> bool \<times> js_error option"
  api_update :: "string \<Rightarrow> string \<Rightarrow> buffer \<Rightarrow> bool \<Rightarrow> string \<Rightarrow> js_error + stored"
  api_getPublicUrl :: "string \<Rightarrow> string \<Rightarrow> download_opt option \<Rightarrow> string"
  api_createSignedUrl :: "string \<Rightarrow> string \<Rightarrow> int \<Rightarrow> download_opt option \<Rightarrow> js_error + string"
  api_createSignedUploadUrl :: "string \<Rightarrow> string \<Rightarrow> js_error + signed_upload"
  api_createSignedUrls ::
    "string \<Rightarrow> string list \<Rightarrow> int \<Rightarrow> download_opt option \<Rightarrow> js_error + signed_item list"
  fs_readFileSync :: "string \<Rightarrow> js_error + buffer"
  fs_statSync :: "string \<Rightarrow> js_error + nat"
  fs_writeFileSync :: "string \<Rightarrow> buffer \<Rightarrow> js_error option"
  date_toLocaleString :: "string \<Rightarrow> string"
  doubles_formatBytes :: "nat \<Rightarrow> string"

text \<open>
  The logger's four channels, and what is logged: a text, or \<open>JSON.stringify(v, null, 2)\<close>
  of a value \<open>v\<close>.
\<close>

datatype channel = ChError | ChInfo | ChSuccess | ChLog

datatype payload =
    PJson json
  | PBuckets "bucket list"
  | PBucket bucket
  | PStored stored
  | PFiles "file_object list"
  | PInfo file_info
  | PPublicUrl string
  | PSignedUrl string
  | PSignedUpload signed_upload
  | PSignedUrls "signed_item list"

datatype logged = Text string | Stringified payload

text \<open>
  The effects of a run: a logger call, the construction of the client by
  \<open>getStorageClient(url, key)\<close>, a client operation together with the error it returned
  (if any), and the file system calls.
\<close>

datatype event =
    Logged channel logged
  | Constructed string string
  | Called client_call "js_error option"
  | FsRead string
  | FsStat string
  | FsWrite string buffer

text \<open>
  The body of a \<open>try\<close> block: the effects performed, and the error thrown, if one was.
\<close>

type_synonym run = "event list \<times> js_error option"

definition throw :: "string \<Rightarrow> run" where
  "throw msg = ([], Some (JsError msg))"

definition prepend :: "event list \<Rightarrow> run \<Rightarrow> run" where
  "prepend evs r = (evs @ fst r, snd r)"

text \<open>
  \<^verbatim>\<open>const { data, error } = await <call>; if (error) throw error; <rest>\<close> where the rest
  only logs.
\<close>

definition on_data :: "client_call \<Rightarrow> js_error + 'a \<Rightarrow> ('a \<Rightarrow> event list) \<Rightarrow> run" where
  "on_data c r rest =
     (case r of
        Inl e \<Rightarrow> ([Called c (Some e)], Some e)
      | Inr d \<Rightarrow> (Called c None # rest d, None))"

text \<open>\<^verbatim>\<open>if (!x) throw new Error(msg)\<close>, then the rest with \<open>x\<close>.\<close>

definition require :: "string option \<Rightarrow> string \<Rightarrow> (string \<Rightarrow> run) \<Rightarrow> run" where
  "require x msg rest =
     (case x of
        None \<Rightarrow> throw msg
      | Some s \<Rightarrow> if truthy s then rest s else throw msg)"

text \<open>\<^verbatim>\<open>if (asJson) logger.log(JSON.stringify(data, null, 2))\<close>.\<close>

definition log_json_if :: "bool \<Rightarrow> payload \<Rightarrow> event list" where
  "log_json_if asJson p = (if asJson then [Logged ChLog (Stringified p)] else [])"

text \<open>How a run of a handler ends: its effects and the exit status of the process.\<close>

record outcome =
  trace :: "event list"
  exit_code :: nat

text \<open>
  The \<open>catch\<close> block of the three handlers: the message of the thrown error goes to
  \<open>logger.error\<close> and the process exits with 1.
\<close>

definition finish :: "run \<Rightarrow> outcome" where
  "finish r =
     (case snd r of
        None \<Rightarrow> \<lparr>trace = fst r, exit_code = 0\<rparr>
      | Some e \<Rightarrow> \<lparr>trace = fst r @ [Logged ChError (Text (message e))], exit_code = 1\<rparr>)"

definition missing_key :: outcome where
  "missing_key =
     \<lparr>trace = [Logged ChError (Text ''Storage key not set''),
               Logged ChInfo (Text ''Set STORAGE_SERVICE_KEY or use --key option'')],
      exit_code = 1\<rparr>"

definition missing_bucket :: outcome where
  "missing_bucket = \<lparr>trace = [Logged ChError (Text ''Bucket name required'')], exit_code = 1\<rparr>"

text \<open>The characters outside ASCII that the messages use, in UTF-8.\<close>

definition newline :: string where "newline = [CHR 0x0A]"
definition emoji_package :: string where "emoji_package = [CHR 0xF0, CHR 0x9F, CHR 0x93, CHR 0xA6]"
definition emoji_globe :: string where "emoji_globe = [CHR 0xF0, CHR 0x9F, CHR 0x8C, CHR 0x90]"
definition emoji_lock :: string where "emoji_lock = [CHR 0xF0, CHR 0x9F, CHR 0x94, CHR 0x92]"
definition emoji_folder_open :: string where "emoji_folder_open = [CHR 0xF0, CHR 0x9F, CHR 0x93, CHR 0x82]"
definition emoji_page :: string where "emoji_page = [CHR 0xF0, CHR 0x9F, CHR 0x93, CHR 0x84]"
definition emoji_folder :: string where "emoji_folder = [CHR 0xF0, CHR 0x9F, CHR 0x93, CHR 0x81]"
definition emoji_link :: string where "emoji_link = [CHR 0xF0, CHR 0x9F, CHR 0x94, CHR 0x97]"
definition emoji_key_lock :: string where "emoji_key_lock = [CHR 0xF0, CHR 0x9F, CHR 0x94, CHR 0x90]"
definition corner :: string where "corner = [CHR 0xE2, CHR 0x94, CHR 0x94, CHR 0xE2, CHR 0x94, CHR 0x80]"
definition arrow :: string where "arrow = [CHR 0xE2, CHR 0x86, CHR 0x92]"
definition check_mark :: string where "check_mark = [CHR 0xE2, CHR 0x9C, CHR 0x93]"
definition cross_mark :: string where "cross_mark = [CHR 0xE2, CHR 0x9C, CHR 0x97]"

text \<open>A \<open>string | null\<close> inside a template string.\<close>

fun str_or_null :: "string option \<Rightarrow> string" where
  "str_or_null None = ''null''"
| "str_or_null (Some s) = s"

text \<open>\<open>Array.prototype.join\<close>.\<close>

fun join :: "string \<Rightarrow> string list \<Rightarrow> string" where
  "join sep [] = []"
| "join sep [x] = x"
| "join sep (x # y # ys) = x @ sep @ join sep (y # ys)"

text \<open>A non-zero number: \<^verbatim>\<open>if (n)\<close> on \<open>number | null | undefined\<close>.\<close>

fun truthy_num :: "nat option \<Rightarrow> bool" where
  "truthy_num None = False"
| "truthy_num (Some n) = (n \<noteq> 0)"

fun num_or_zero :: "nat option \<Rightarrow> nat" where
  "num_or_zero None = 0"
| "num_or_zero (Some n) = n"

section \<open>Command-line arguments\<close>

text \<open>
  The \<open>argv\<close> object a handler receives from yargs. The three commands share \<open>action\<close>,
  \<open>url\<close>, \<open>key\<close> and \<open>json\<close>; \<open>file\<close> and \<open>url\<close> share \<open>bucket\<close>, \<open>path\<close>, \<open>args\<close> and
  \<open>download\<close>. The action is the string yargs passes on, so that the \<open>default\<close> branch of
  each \<open>switch\<close> is part of the model.
\<close>

record common_argv =
  arg_action :: string
  arg_url :: string
  arg_key :: string
  arg_json :: bool

record bucket_argv = common_argv +
  arg_name :: "string option"
  arg_public :: "bool option"

record storage_argv = common_argv +
  arg_bucket :: string
  arg_path :: "string option"
  arg_args :: "string list option"
  arg_download :: "download_opt option"

record file_argv = storage_argv +
  arg_file :: "string option"
  arg_output :: "string option"
  arg_from :: "string option"
  arg_to :: "string option"
  arg_prefix :: "string option"
  arg_limit :: int
  arg_search :: "string option"
  arg_upsert :: bool

record url_argv = storage_argv +
  arg_expires :: int

text \<open>
  The defaults of the \<open>builder\<close> functions. yargs gives an option its default when the
  flag is not on the command line; the defaults of \<open>url\<close> and \<open>key\<close> come from the
  environment.
\<close>

record environment =
  STORAGE_URL :: "string option"
  STORAGE_SERVICE_KEY :: "string option"

record global_flags =
  flag_url :: "string option"
  flag_key :: "string option"
  flag_json :: "bool option"

fun with_default :: "'a option \<Rightarrow> 'a \<Rightarrow> 'a" where
  "with_default None d = d"
| "with_default (Some v) d = v"

definition resolved_url :: "environment \<Rightarrow> global_flags \<Rightarrow> string" where
  "resolved_url env fl =
     with_default (flag_url fl) (or_else (STORAGE_URL env) ''http://localhost:5000/storage/v1'')"

definition resolved_key :: "environment \<Rightarrow> global_flags \<Rightarrow> string" where
  "resolved_key env fl = with_default (flag_key fl) (or_else (STORAGE_SERVICE_KEY env) [])"

definition resolved_json :: "global_flags \<Rightarrow> bool" where
  "resolved_json fl = with_default (flag_json fl) False"

text \<open>
  Each builder fills the defaulted options into the arguments parsed from the command
  line (\<open>parsed\<close> holds the positional arguments and the options without a default).
\<close>

definition bucket_builder :: "environment \<Rightarrow> global_flags \<Rightarrow> bucket_argv \<Rightarrow> bucket_argv" where
  "bucket_builder env fl parsed =
     parsed\<lparr>arg_url := resolved_url env fl, arg_key := resolved_key env fl,
            arg_json := resolved_json fl\<rparr>"

definition file_builder ::
  "environment \<Rightarrow> global_flags \<Rightarrow> int option \<Rightarrow> bool option \<Rightarrow> file_argv \<Rightarrow> file_argv" where
  "file_builder env fl limit_flag upsert_flag parsed =
     parsed\<lparr>arg_url := resolved_url env fl, arg_key := resolved_key env fl,
            arg_json := resolved_json fl,
            arg_limit := with_default limit_flag 100,
            arg_upsert := with_default upsert_flag False\<rparr>"

definition url_builder ::
  "environment \<Rightarrow> global_flags \<Rightarrow> int option \<Rightarrow> url_argv \<Rightarrow> url_argv" where
  "url_builder env fl expires_flag parsed =
     parsed\<lparr>arg_url := resolved_url env fl, arg_key := resolved_key env fl,
            arg_json := resolved_json fl,
            arg_expires := with_default expires_flag 3600\<rparr>"

section \<open>commands/bucket.ts\<close>

definition bucket_lines :: "world \<Rightarrow> bucket \<Rightarrow> event list" where
  "bucket_lines w b =
     (let visibility = (if b_public b then emoji_globe @ '' Public'' else emoji_lock @ '' Private'')
      in Logged ChLog (Text (''  '' @ visibility @ ''  '' @ b_name b)) #
         (if truthy_num (b_file_size_limit b)
          then [Logged ChLog (Text (''    '' @ corner @ '' Size Limit: '' @
                  formatBytes (doubles_formatBytes w) (num_or_zero (b_file_size_limit b))))]
          else []))"

definition listBuckets :: "world \<Rightarrow> bool \<Rightarrow> run" where
  "listBuckets w asJson =
     on_data ListBuckets (api_listBuckets w)
       (\<lambda>data.
          if asJson then [Logged ChLog (Stringified (PBuckets data))]
          else Logged ChLog (Text (newline @ emoji_package @ '' Buckets ('' @
                 string_of_nat (length data) @ '')'' @ newline)) #
               concat (map (bucket_lines w) data))"

text \<open>The parameter \<open>isPublic\<close> has the default \<open>false\<close>, taken when it is \<open>undefined\<close>.\<close>

definition createBucket :: "world \<Rightarrow> string \<Rightarrow> bool option \<Rightarrow> bool \<Rightarrow> run" where
  "createBucket w name isPublic asJson =
     (let pub = with_default isPublic False in
      on_data (CreateBucket name pub) (api_createBucket w name pub)
        (\<lambda>data. Logged ChSuccess (Text (''Bucket created: '' @ name)) #
                 log_json_if asJson (PJson data)))"

definition getBucket :: "world \<Rightarrow> string \<Rightarrow> bool \<Rightarrow> run" where
  "getBucket w name asJson =
     on_data (GetBucket name) (api_getBucket w name)
       (\<lambda>data.
          if asJson then [Logged ChLog (Stringified (PBucket data))]
          else
            [Logged ChLog (Text (newline @ emoji_package @ '' Bucket: '' @ b_name data @ newline)),
             Logged ChLog (Text (''  ID:          '' @ b_id data)),
             Logged ChLog (Text (''  Public:      '' @
               (if b_public data then emoji_globe @ '' Yes'' else emoji_lock @ '' No''))),
             Logged ChLog (Text (''  Created:     '' @ b_created_at data)),
             Logged ChLog (Text (''  Updated:     '' @ b_updated_at data))] @
            (if truthy_num (b_file_size_limit data)
             then [Logged ChLog (Text (''  Size Limit:  '' @
                     formatBytes (doubles_formatBytes w) (num_or_zero (b_file_size_limit data))))]
             else []) @
            (case b_allowed_mime_types data of
               None \<Rightarrow> []
             | Some ts \<Rightarrow> [Logged ChLog (Text (''  MIME Types:  '' @ join '', '' ts))]))"

definition updateBucket :: "world \<Rightarrow> string \<Rightarrow> bool option \<Rightarrow> bool \<Rightarrow> run" where
  "updateBucket w name isPublic asJson =
     (case isPublic of
        None \<Rightarrow> throw ''--public flag required for update''
      | Some pub \<Rightarrow>
          on_data (UpdateBucket name pub) (api_updateBucket w name pub)
            (\<lambda>data. Logged ChSuccess (Text (''Bucket updated: '' @ name)) #
                     log_json_if asJson (PJson data)))"

definition emptyBucket :: "world \<Rightarrow> string \<Rightarrow> run" where
  "emptyBucket w name =
     on_data (EmptyBucket name) (api_emptyBucket w name)
       (\<lambda>data. [Logged ChSuccess (Text (''Bucket emptied: '' @ name))])"

definition deleteBucket :: "world \<Rightarrow> string \<Rightarrow> run" where
  "deleteBucket w name =
     on_data (DeleteBucket name) (api_deleteBucket w name)
       (\<lambda>data. [Logged ChSuccess (Text (''Bucket deleted: '' @ name))])"

text \<open>The \<open>switch\<close> inside the \<open>try\<close> block of the bucket handler.\<close>

definition bucket_switch :: "world \<Rightarrow> bucket_argv \<Rightarrow> run" where
  "bucket_switch w argv =
     (let action = arg_action argv; name = arg_name argv; json = arg_json argv;
          isPublic = arg_public argv
      in
      if action = ''list'' then listBuckets w json
      else if action = ''create'' then
        require name ''Bucket name required'' (\<lambda>n. createBucket w n isPublic json)
      else if action = ''get'' then
        require name ''Bucket name required'' (\<lambda>n. getBucket w n json)
      else if action = ''update'' then
        require name ''Bucket name required'' (\<lambda>n. updateBucket w n isPublic json)
      else if action = ''empty'' then
        require name ''Bucket name required'' (\<lambda>n. emptyBucket w n)
      else if action = ''delete'' then
        require name ''Bucket name required'' (\<lambda>n. deleteBucket w n)
      else throw (''Unknown action: '' @ action))"

definition bucket_handler :: "world \<Rightarrow> bucket_argv \<Rightarrow> outcome" where
  "bucket_handler w argv =
     (if \<not> truthy (arg_key argv) then missing_key
      else finish (prepend [Constructed (arg_url argv) (arg_key argv)] (bucket_switch w argv)))"

section \<open>commands/file.ts\<close>

text \<open>
  \<open>uploadFile\<close> reads the local file with \<open>fs.readFileSync\<close> and \<open>fs.statSync\<close> before it
  calls the client; either may throw.
\<close>

definition uploadFile ::
  "world \<Rightarrow> string \<Rightarrow> string \<Rightarrow> string option \<Rightarrow> bool \<Rightarrow> bool \<Rightarrow> run" where
  "uploadFile w bucket filePath remotePath upsert asJson =
     (let fileName = or_else remotePath (path_basename filePath) in
      case fs_readFileSync w filePath of
        Inl e \<Rightarrow> ([FsRead filePath], Some e)
      | Inr fileBuffer \<Rightarrow>
          (case fs_statSync w filePath of
             Inl e \<Rightarrow> ([FsRead filePath, FsStat filePath], Some e)
           | Inr bytes \<Rightarrow>
               prepend
                 [FsRead filePath, FsStat filePath,
                  Logged ChInfo (Text (''Uploading '' @ formatBytes (doubles_formatBytes w) bytes @ ''...''))]
                 (on_data (Upload bucket fileName fileBuffer upsert (getContentType filePath))
                    (api_upload w bucket fileName fileBuffer upsert (getContentType filePath))
                    (\<lambda>data. Logged ChSuccess (Text (''Uploaded: '' @ bucket @ ''/'' @ stored_path data)) #
                             log_json_if asJson (PStored data)))))"

text \<open>\<open>downloadFile\<close> writes the downloaded bytes with \<open>fs.writeFileSync\<close>, which may throw.\<close>

definition downloadFile ::
  "world \<Rightarrow> string \<Rightarrow> string \<Rightarrow> string option \<Rightarrow> bool \<Rightarrow> run" where
  "downloadFile w bucket remotePath outputPath asJson =
     prepend [Logged ChInfo (Text ''Downloading...'')]
       (case api_download w bucket remotePath of
          Inl e \<Rightarrow> ([Called (Download bucket remotePath) (Some e)], Some e)
        | Inr buf \<Rightarrow>
            (let output = or_else outputPath (path_basename remotePath) in
             case fs_writeFileSync w output buf of
               Some e \<Rightarrow> ([Called (Download bucket remotePath) None, FsWrite output buf], Some e)
             | None \<Rightarrow>
                 ([Called (Download bucket remotePath) None, FsWrite output buf,
                   Logged ChSuccess (Text (''Downloaded: '' @ output @ '' ('' @
                     formatBytes (doubles_formatBytes w) (length buf) @ '')''))], None)))"

definition file_lines :: "world \<Rightarrow> file_object \<Rightarrow> event list" where
  "file_lines w f =
     (let icon = (if truthy_opt (f_id f) then emoji_page else emoji_folder);
          sz = (if truthy_num (f_size f)
                  then '' ('' @ formatBytes (doubles_formatBytes w) (num_or_zero (f_size f)) @ '')'' else [])
      in Logged ChLog (Text (''  '' @ icon @ '' '' @ f_name f @ sz)) #
         (case f_updated_at f of
            None \<Rightarrow> []
          | Some u \<Rightarrow>
              if truthy u
              then [Logged ChLog (Text (''     '' @ corner @ '' Updated: '' @ date_toLocaleString w u))]
              else []))"

definition listFiles ::
  "world \<Rightarrow> string \<Rightarrow> string option \<Rightarrow> int \<Rightarrow> string option \<Rightarrow> bool \<Rightarrow> run" where
  "listFiles w bucket prefix limit search asJson =
     on_data (ListFiles bucket (or_else prefix []) limit search)
       (api_list w bucket (or_else prefix []) limit search)
       (\<lambda>data.
          if asJson then [Logged ChLog (Stringified (PFiles data))]
          else Logged ChLog (Text (newline @ emoji_folder_open @ '' Files in '' @ bucket @
                 (if truthy_opt prefix then ''/'' @ or_else prefix [] else []) @
                 '' ('' @ string_of_nat (length data) @ '')'' @ newline)) #
               concat (map (file_lines w) data))"

definition deleteFiles :: "world \<Rightarrow> string \<Rightarrow> string list \<Rightarrow> bool \<Rightarrow> run" where
  "deleteFiles w bucket paths asJson =
     prepend [Logged ChInfo (Text (''Deleting '' @ string_of_nat (length paths) @ '' file(s)...''))]
       (on_data (Remove bucket paths) (api_remove w bucket paths)
          (\<lambda>data.
             Logged ChSuccess (Text (''Deleted '' @ string_of_nat (length data) @ '' file(s)'')) #
             (if asJson then [Logged ChLog (Stringified (PFiles data))]
              else map (\<lambda>f. Logged ChLog (Text (''  '' @ check_mark @ '' '' @ f_name f))) data)))"

definition moveFile :: "world \<Rightarrow> string \<Rightarrow> string \<Rightarrow> string \<Rightarrow> bool \<Rightarrow> run" where
  "moveFile w bucket from to asJson =
     on_data (Move bucket from to) (api_move w bucket from to)
       (\<lambda>data. Logged ChSuccess (Text (''Moved: '' @ from @ '' '' @ arrow @ '' '' @ to)) #
                log_json_if asJson (PJson data))"

definition copyFile :: "world \<Rightarrow> string \<Rightarrow> string \<Rightarrow> string \<Rightarrow> bool \<Rightarrow> run" where
  "copyFile w bucket from to asJson =
     on_data (Copy bucket from to) (api_copy w bucket from to)
       (\<lambda>data. Logged ChSuccess (Text (''Copied: '' @ from @ '' '' @ arrow @ '' '' @ to)) #
                log_json_if asJson (PJson data))"

definition getFileInfo :: "world \<Rightarrow> string \<Rightarrow> string \<Rightarrow> bool \<Rightarrow> run" where
  "getFileInfo w bucket filePath asJson =
     prepend [Logged ChInfo (Text ''Getting file info...'')]
       (on_data (Info bucket filePath) (api_info w bucket filePath)
          (\<lambda>data.
             if asJson then [Logged ChLog (Stringified (PInfo data))]
             else
               [Logged ChLog (Text (newline @ emoji_page @ '' File: '' @ i_name data @ newline)),
                Logged ChLog (Text (''  ID:             '' @ i_id data)),
                Logged ChLog (Text (''  Bucket:         '' @ i_bucketId data)),
                Logged ChLog (Text (''  Size:           '' @ formatBytes (doubles_formatBytes w) (num_or_zero (i_size data)))),
                Logged ChLog (Text (''  Content Type:   '' @ or_else (i_mimetype data) ''unknown'')),
                Logged ChLog (Text (''  Created:        '' @ i_createdAt data)),
                Logged ChLog (Text (''  Updated:        '' @ i_updatedAt data)),
                Logged ChLog (Text (''  Last Accessed:  '' @ or_else (i_lastAccessedAt data) ''N/A''))] @
               (if truthy_opt (i_cacheControl data)
                then [Logged ChLog (Text (''  Cache Control:  '' @ or_else (i_cacheControl data) []))]
                else []) @
               (if truthy_opt (i_eTag data)
                then [Logged ChLog (Text (''  ETag:           '' @ or_else (i_eTag data) []))]
                else [])))"

text \<open>
  \<open>checkFileExists\<close> never throws: the error the client returns is put into the JSON
  output (\<^verbatim>\<open>error?.message || null\<close>) or, in text mode, not looked at.
\<close>

definition exists_error_json :: "js_error option \<Rightarrow> json" where
  "exists_error_json err =
     (case err of
        None \<Rightarrow> JNull
      | Some e \<Rightarrow> if truthy (message e) then JStr (message e) else JNull)"

definition checkFileExists :: "world \<Rightarrow> string \<Rightarrow> string \<Rightarrow> bool \<Rightarrow> run" where
  "checkFileExists w bucket filePath asJson =
     (let r = api_exists w bucket filePath; data = fst r; err = snd r in
      (Called (Exists bucket filePath) err #
       (if asJson
        then [Logged ChLog (Stringified (PJson
                (JObj [(''exists'', JBool data), (''error'', exists_error_json err)])))]
        else if data then [Logged ChSuccess (Text (''File exists: '' @ filePath))]
        else [Logged ChInfo (Text (''File does not exist: '' @ filePath))]),
       None))"

definition updateFile ::
  "world \<Rightarrow> string \<Rightarrow> string \<Rightarrow> string \<Rightarrow> bool \<Rightarrow> bool \<Rightarrow> run" where
  "updateFile w bucket filePath remotePath upsert asJson =
     (case fs_readFileSync w filePath of
        Inl e \<Rightarrow> ([FsRead filePath], Some e)
      | Inr fileBuffer \<Rightarrow>
          (case fs_statSync w filePath of
             Inl e \<Rightarrow> ([FsRead filePath, FsStat filePath], Some e)
           | Inr bytes \<Rightarrow>
               prepend
                 [FsRead filePath, FsStat filePath,
                  Logged ChInfo (Text (''Updating '' @ formatBytes (doubles_formatBytes w) bytes @ ''...''))]
                 (on_data (Update bucket remotePath fileBuffer upsert (getContentType filePath))
                    (api_update w bucket remotePath fileBuffer upsert (getContentType filePath))
                    (\<lambda>data. Logged ChSuccess (Text (''Updated: '' @ bucket @ ''/'' @ stored_path data)) #
                             log_json_if asJson (PStored data)))))"

text \<open>\<^verbatim>\<open>argv.args || []\<close>, and its first element \<^verbatim>\<open>pathsFromArgs[0]\<close> (possibly \<open>undefined\<close>).\<close>

definition args_or_empty :: "string list option \<Rightarrow> string list" where
  "args_or_empty a = (case a of None \<Rightarrow> [] | Some xs \<Rightarrow> xs)"

definition first_arg :: "string list \<Rightarrow> string option" where
  "first_arg xs = (case xs of [] \<Rightarrow> None | x # _ \<Rightarrow> Some x)"

text \<open>\<^verbatim>\<open>remotePath || pathsFromArgs[0]\<close>.\<close>

definition actualPath :: "string option \<Rightarrow> string list \<Rightarrow> string option" where
  "actualPath remotePath pathsFromArgs =
     (if truthy_opt remotePath then remotePath else first_arg pathsFromArgs)"

text \<open>\<^verbatim>\<open>if (!from || !to) throw new Error(msg)\<close>, then the rest with both.\<close>

definition require_both ::
  "string option \<Rightarrow> string option \<Rightarrow> string \<Rightarrow> (string \<Rightarrow> string \<Rightarrow> run) \<Rightarrow> run" where
  "require_both x y msg rest = require x msg (\<lambda>a. require y msg (\<lambda>b. rest a b))"

definition file_switch :: "world \<Rightarrow> file_argv \<Rightarrow> run" where
  "file_switch w argv =
     (let action = arg_action argv; bucket = arg_bucket argv; json = arg_json argv in
      if action = ''upload'' then
        require (arg_file argv) ''File path required (use --file)''
          (\<lambda>file. uploadFile w bucket file (arg_path argv) (arg_upsert argv) json)
      else if action = ''download'' then
        require (actualPath (arg_path argv) (args_or_empty (arg_args argv)))
          ''Remote path required (use --path or provide as argument)''
          (\<lambda>p. downloadFile w bucket p (arg_output argv) json)
      else if action = ''list'' then
        listFiles w bucket (arg_prefix argv) (arg_limit argv) (arg_search argv) json
      else if action = ''delete'' then
        (let paths = args_or_empty (arg_args argv) in
         if length paths = 0 then throw ''At least one path required''
         else deleteFiles w bucket paths json)
      else if action = ''move'' then
        require_both (arg_from argv) (arg_to argv) ''Both --from and --to required''
          (\<lambda>from to. moveFile w bucket from to json)
      else if action = ''copy'' then
        require_both (arg_from argv) (arg_to argv) ''Both --from and --to required''
          (\<lambda>from to. copyFile w bucket from to json)
      else if action = ''info'' then
        require (actualPath (arg_path argv) (args_or_empty (arg_args argv)))
          ''File path required (use --path or provide as argument)''
          (\<lambda>p. getFileInfo w bucket p json)
      else if action = ''exists'' then
        require (actualPath (arg_path argv) (args_or_empty (arg_args argv)))
          ''File path required (use --path or provide as argument)''
          (\<lambda>p. checkFileExists w bucket p json)
      else if action = ''update'' then
        require (arg_file argv) ''File path required (use --file)''
          (\<lambda>file. require (arg_path argv) ''Remote path required (use --path to specify destination)''
             (\<lambda>remotePath. updateFile w bucket file remotePath (arg_upsert argv) json))
      else throw (''Unknown action: '' @ action))"

definition file_handler :: "world \<Rightarrow> file_argv \<Rightarrow> outcome" where
  "file_handler w argv =
     (if \<not> truthy (arg_key argv) then missing_key
      else if \<not> truthy (arg_bucket argv) then missing_bucket
      else finish (prepend [Constructed (arg_url argv) (arg_key argv)] (file_switch w argv)))"

section \<open>commands/url.ts\<close>

text \<open>The text of \<open>download\<close> in \<open>getPublicUrl\<close>'s download line.\<close>

fun download_mode :: "download_opt option \<Rightarrow> string" where
  "download_mode (Some (DlString s)) = s"
| "download_mode d = ''enabled''"

text \<open>\<open>getPublicUrl\<close> of the client is synchronous and returns no error.\<close>

definition getPublicUrl ::
  "world \<Rightarrow> string \<Rightarrow> string \<Rightarrow> download_opt option \<Rightarrow> bool \<Rightarrow> run" where
  "getPublicUrl w bucket filePath download asJson =
     (let publicUrl = api_getPublicUrl w bucket filePath download in
      (Called (GetPublicUrl bucket filePath download) None #
       (if asJson then [Logged ChLog (Stringified (PPublicUrl publicUrl))]
        else
          [Logged ChLog (Text (newline @ emoji_link @ '' Public URL:'' @ newline)),
           Logged ChLog (Text (''  '' @ publicUrl))] @
          (if truthy_download download
           then [Logged ChLog (Text (''  (Download mode: '' @ download_mode download @ '')''))]
           else [])),
       None))"

definition getSignedUrl ::
  "world \<Rightarrow> string \<Rightarrow> string \<Rightarrow> int \<Rightarrow> download_opt option \<Rightarrow> bool \<Rightarrow> run" where
  "getSignedUrl w bucket filePath expiresIn download asJson =
     on_data (CreateSignedUrl bucket filePath expiresIn download)
       (api_createSignedUrl w bucket filePath expiresIn download)
       (\<lambda>signedUrl.
          if asJson then [Logged ChLog (Stringified (PSignedUrl signedUrl))]
          else
            [Logged ChLog (Text (newline @ emoji_key_lock @ '' Signed URL (expires in '' @
               string_of_int expiresIn @ ''s):'' @ newline)),
             Logged ChLog (Text (''  '' @ signedUrl))])"

definition getSignedUploadUrl :: "world \<Rightarrow> string \<Rightarrow> string \<Rightarrow> bool \<Rightarrow> run" where
  "getSignedUploadUrl w bucket filePath asJson =
     on_data (CreateSignedUploadUrl bucket filePath) (api_createSignedUploadUrl w bucket filePath)
       (\<lambda>data.
          if asJson then [Logged ChLog (Stringified (PSignedUpload data))]
          else
            [Logged ChLog (Text (newline @ emoji_key_lock @ '' Signed Upload URL:'' @ newline)),
             Logged ChLog (Text (''  Path:  '' @ su_path data)),
             Logged ChLog (Text (''  Token: '' @ su_token data)),
             Logged ChLog (Text (''  Signed URL: '' @ su_signedUrl data))])"

text \<open>\<^verbatim>\<open>item.error\<close> as a condition: a non-empty error string.\<close>

definition item_failed :: "signed_item \<Rightarrow> bool" where
  "item_failed item = truthy_opt (s_error item)"

definition item_lines :: "signed_item \<Rightarrow> event list" where
  "item_lines item =
     (if item_failed item
      then [Logged ChLog (Text (''  '' @ cross_mark @ '' '' @ str_or_null (s_path item) @ '': '' @
              str_or_null (s_error item)))]
      else [Logged ChLog (Text (''  '' @ check_mark @ '' '' @ str_or_null (s_path item))),
            Logged ChLog (Text (''    '' @ str_or_null (s_signedUrl item)))])"

definition tally :: "signed_item list \<Rightarrow> string" where
  "tally data =
     (let successCount = length (filter (\<lambda>item. \<not> item_failed item) data) in
      newline @ string_of_nat successCount @ ''/'' @ string_of_nat (length data) @
      '' URLs generated successfully'')"

definition getSignedUrls ::
  "world \<Rightarrow> string \<Rightarrow> string list \<Rightarrow> int \<Rightarrow> download_opt option \<Rightarrow> bool \<Rightarrow> run" where
  "getSignedUrls w bucket filePaths expiresIn download asJson =
     prepend
       [Logged ChInfo (Text (''Creating signed URLs for '' @ string_of_nat (length filePaths) @
          '' file(s)...''))]
       (on_data (CreateSignedUrls bucket filePaths expiresIn download)
          (api_createSignedUrls w bucket filePaths expiresIn download)
          (\<lambda>data.
             if asJson then [Logged ChLog (Stringified (PSignedUrls data))]
             else
               Logged ChLog (Text (newline @ emoji_key_lock @ '' Signed URLs (expires in '' @
                 string_of_int expiresIn @ ''s):'' @ newline)) #
               concat (map item_lines data) @
               [Logged ChSuccess (Text (tally data))]))"

text \<open>\<^verbatim>\<open>const paths = argv.args || []; if (path) paths.unshift(path)\<close>.\<close>

definition signed_urls_paths :: "string option \<Rightarrow> string list option \<Rightarrow> string list" where
  "signed_urls_paths path args =
     (case path of
        None \<Rightarrow> args_or_empty args
      | Some p \<Rightarrow> if truthy p then p # args_or_empty args else args_or_empty args)"

definition url_switch :: "world \<Rightarrow> url_argv \<Rightarrow> run" where
  "url_switch w argv =
     (let action = arg_action argv; bucket = arg_bucket argv; path = arg_path argv;
          json = arg_json argv; expires = arg_expires argv; download = arg_download argv
      in
      if action = ''public'' then
        require path ''Path required for public URL''
          (\<lambda>p. getPublicUrl w bucket p download json)
      else if action = ''signed'' then
        require path ''Path required for signed URL''
          (\<lambda>p. getSignedUrl w bucket p expires download json)
      else if action = ''signed-upload'' then
        require path ''Path required for signed upload URL''
          (\<lambda>p. getSignedUploadUrl w bucket p json)
      else if action = ''signed-urls'' then
        (let paths = signed_urls_paths path (arg_args argv) in
         if length paths = 0 then throw ''At least one path required for signed URLs''
         else getSignedUrls w bucket paths expires download json)
      else throw (''Unknown action: '' @ action))"

definition url_handler :: "world \<Rightarrow> url_argv \<Rightarrow> outcome" where
  "url_handler w argv =
     (if \<not> truthy (arg_key argv) then missing_key
      else if \<not> truthy (arg_bucket argv) then missing_bucket
      else finish (prepend [Constructed (arg_url argv) (arg_key argv)] (url_switch w argv)))"

section \<open>The three commands\<close>

text \<open>
  \<open>bin/run.ts\<close> registers the three command modules; yargs runs the handler of the command
  that was invoked, with the arguments its builder produced.
\<close>

datatype command = BucketCmd bucket_argv | FileCmd file_argv | UrlCmd url_argv

fun main :: "world \<Rightarrow> command \<Rightarrow> outcome" where
  "main w (BucketCmd argv) = bucket_handler w argv"
| "main w (FileCmd argv) = file_handler w argv"
| "main w (UrlCmd argv) = url_handler w argv"

fun set_json :: "bool \<Rightarrow> command \<Rightarrow> command" where
  "set_json j (BucketCmd argv) = BucketCmd (argv\<lparr>arg_json := j\<rparr>)"
| "set_json j (FileCmd argv) = FileCmd (argv\<lparr>arg_json := j\<rparr>)"
| "set_json j (UrlCmd argv) = UrlCmd (argv\<lparr>arg_json := j\<rparr>)"

fun cmd_key :: "command \<Rightarrow> string" where
  "cmd_key (BucketCmd argv) = arg_key argv"
| "cmd_key (FileCmd argv) = arg_key argv"
| "cmd_key (UrlCmd argv) = arg_key argv"

text \<open>The client operations of a trace, in order.\<close>

fun client_calls :: "event list \<Rightarrow> client_call list" where
  "client_calls [] = []"
| "client_calls (Called c r # evs) = c # client_calls evs"
| "client_calls (ev # evs) = client_calls evs"

text \<open>Whether the client was constructed.\<close>

fun constructed :: "event list \<Rightarrow> bool" where
  "constructed [] = False"
| "constructed (Constructed u k # evs) = True"
| "constructed (ev # evs) = constructed evs"

text \<open>What went to a channel of the logger, in order.\<close>

fun logged_on :: "channel \<Rightarrow> event list \<Rightarrow> logged list" where
  "logged_on ch [] = []"
| "logged_on ch (Logged ch' m # evs) = (if ch' = ch then m # logged_on ch evs else logged_on ch evs)"
| "logged_on ch (ev # evs) = logged_on ch evs"

fun is_exists :: "client_call \<Rightarrow> bool" where
  "is_exists (Exists b p) = True"
| "is_exists c = False"

text \<open>A world in which every operation succeeds with empty data, for concrete runs.\<close>

definition quiet :: world where
  "quiet =
     \<lparr>api_listBuckets = Inr [],
      api_createBucket = (\<lambda>n p. Inr JNull),
      api_getBucket = (\<lambda>n. Inr \<lparr>b_id = n, b_name = n, b_public = False, b_created_at = [],
                                 b_updated_at = [], b_file_size_limit = None,
                                 b_allowed_mime_types = None\<rparr>),
      api_updateBucket = (\<lambda>n p. Inr JNull),
      api_emptyBucket = (\<lambda>n. Inr JNull),
      api_deleteBucket = (\<lambda>n. Inr JNull),
      api_upload = (\<lambda>b p body u t. Inr \<lparr>stored_path = p\<rparr>),
      api_download = (\<lambda>b p. Inr []),
      api_list = (\<lambda>b p l s. Inr []),
      api_remove = (\<lambda>b ps. Inr []),
      api_move = (\<lambda>b f t. Inr JNull),
      api_copy = (\<lambda>b f t. Inr JNull),
      api_info = (\<lambda>b p. Inr \<lparr>i_name = p, i_id = [], i_bucketId = b, i_size = None,
                               i_mimetype = None, i_cacheControl = None, i_eTag = None,
                               i_createdAt = [], i_updatedAt = [], i_lastAccessedAt = None\<rparr>),
      api_exists = (\<lambda>b p. (True, None)),
      api_update = (\<lambda>b p body u t. Inr \<lparr>stored_path = p\<rparr>),
      api_getPublicUrl = (\<lambda>b p d. p),
      api_createSignedUrl = (\<lambda>b p e d. Inr p),
      api_createSignedUploadUrl = (\<lambda>b p. Inr \<lparr>su_path = p, su_token = [], su_signedUrl = p\<rparr>),
      api_createSignedUrls = (\<lambda>b ps e d. Inr []),
      fs_readFileSync = (\<lambda>p. Inr []),
      fs_statSync = (\<lambda>p. Inr 0),
      fs_writeFileSync = (\<lambda>p b. None),
      date_toLocaleString = (\<lambda>s. s),
      doubles_formatBytes = (\<lambda>n. [])\<rparr>"

text \<open>Arguments with nothing but the action, a key and (for file and url) a bucket.\<close>

definition bucket_args :: "string \<Rightarrow> bucket_argv" where
  "bucket_args action =
     \<lparr>arg_action = action, arg_url = ''http://localhost:5000/storage/v1'', arg_key = ''test-key'',
      arg_json = False, arg_name = None, arg_public = None\<rparr>"

definition file_args :: "string \<Rightarrow> file_argv" where
  "file_args action =
     \<lparr>arg_action = action, arg_url = ''http://localhost:5000/storage/v1'', arg_key = ''test-key'',
      arg_json = False, arg_bucket = ''test-bucket'', arg_path = None, arg_args = None,
      arg_download = None, arg_file = None, arg_output = None, arg_from = None, arg_to = None,
      arg_prefix = None, arg_limit = 100, arg_search = None, arg_upsert = False\<rparr>"

definition url_args :: "string \<Rightarrow> url_argv" where
  "url_args action =
     \<lparr>arg_action = action, arg_url = ''http://localhost:5000/storage/v1'', arg_key = ''test-key'',
      arg_json = False, arg_bucket = ''test-bucket'', arg_path = None, arg_args = None,
      arg_download = None, arg_expires = 3600\<rparr>"

text \<open>An environment without the two variables, and a command line without global flags.\<close>

definition no_key_env :: environment where
  "no_key_env = \<lparr>STORAGE_URL = None, STORAGE_SERVICE_KEY = None\<rparr>"

definition no_flags :: global_flags where
  "no_flags = \<lparr>flag_url = None, flag_key = None, flag_json = None\<rparr>"

text \<open>
  The outcome of a run whose \<open>switch\<close> throws \<open>new Error(msg)\<close> before anything else
  happens: the client was constructed, the message goes to \<open>logger.error\<close>, exit status 1.
\<close>

definition rejected :: "'a common_argv_scheme \<Rightarrow> string \<Rightarrow> outcome" where
  "rejected argv msg =
     \<lparr>trace = [Constructed (arg_url argv) (arg_key argv), Logged ChError (Text msg)],
      exit_code = 1\<rparr>"

text \<open>A list the client returns from \<open>remove\<close> that is shorter than the list of paths.\<close>

definition two_removed :: "file_object list" where
  "two_removed =
     [\<lparr>f_id = Some ''1'', f_name = ''a.txt'', f_size = None, f_updated_at = None\<rparr>]"

text \<open>Two entries as the client returns them from \<open>createSignedUrls\<close>, the second failed.\<close>

definition two_items :: "signed_item list" where
  "two_items =
     [\<lparr>s_error = None, s_path = Some ''file1.txt'',
       s_signedUrl = Some ''http://localhost/file1.txt?token=abc''\<rparr>,
      \<lparr>s_error = Some ''File not found'', s_path = Some ''missing.txt'', s_signedUrl = None\<rparr>]"

text \<open>A command line whose only global flag is \<open>--key test-key\<close>.\<close>

definition key_flag :: global_flags where
  "key_flag = \<lparr>flag_url = None, flag_key = Some ''test-key'', flag_json = None\<rparr>"

text \<open>
  A run of a \<open>try\<close> block in which the client operation \<open>c\<close>, other than \<open>exists\<close>,
  returned the error \<open>e\<close>; and a run that threw \<open>e\<close> without logging an error itself.
\<close>

definition failed_with :: "client_call \<Rightarrow> js_error \<Rightarrow> run \<Rightarrow> bool" where
  "failed_with c e r = (Called c (Some e) \<in> set (fst r) \<and> \<not> is_exists c)"

definition thrown_quietly :: "js_error \<Rightarrow> run \<Rightarrow> bool" where
  "thrown_quietly e r = (snd r = Some e \<and> logged_on ChError (fst r) = [])"

text \<open>Worlds in which \<open>exists\<close>, respectively \<open>list\<close>, returns an error.\<close>

definition exists_fails :: world where
  "exists_fails = quiet\<lparr>api_exists := (\<lambda>b p. (False, Some (JsError ''Object not found'')))\<rparr>"

definition list_fails :: world where
  "list_fails = quiet\<lparr>api_list := (\<lambda>b p l s. Inl (JsError ''Storage error''))\<rparr>"

section \<open>Properties of the utilities\<close>

subsection \<open>formatBytes\<close>













subsection \<open>getContentType\<close>

lemma lower_char_cases:
  "lower_char c = c \<or> (65 \<le> (of_char c :: nat) \<and> (of_char c :: nat) \<le> 90 \<and> lower_char c = char_of ((of_char c :: nat) + 32))"
  by (simp add: lower_char_def Let_def)

lemma lower_char_eq_low:
  assumes d: "(of_char d :: nat) < 65"
  shows "(lower_char c = d) = (c = d)"
proof -
  from lower_char_cases [of c] show ?thesis
  proof
    assume "lower_char c = c"
    then show ?thesis by simp
  next
    assume h: "65 \<le> (of_char c :: nat) \<and> (of_char c :: nat) \<le> 90 \<and>
      lower_char c = char_of ((of_char c :: nat) + 32)"
    have ne: "c \<noteq> d" using h d by auto
    have "(of_char (lower_char c) :: nat) = ((of_char c :: nat) + 32) mod 256"
      using h by simp
    also have "\<dots> = (of_char c :: nat) + 32" using h by simp
    finally have "(of_char (lower_char c) :: nat) \<ge> 65" using h by simp
    then have "lower_char c \<noteq> d" using d by auto
    with ne show ?thesis by simp
  qed
qed

lemma is_dot_lower [simp]: "is_dot (lower_char c) = is_dot c"
  by (simp add: is_dot_def lower_char_eq_low)

lemma is_slash_lower [simp]: "is_slash (lower_char c) = is_slash c"
  by (simp add: is_slash_def lower_char_eq_low)

lemma takeWhile_map_lower:
  "(\<And>c. P (lower_char c) = P c) \<Longrightarrow> takeWhile P (map lower_char xs) = map lower_char (takeWhile P xs)"
  by (induction xs) auto

lemma dropWhile_map_lower:
  "(\<And>c. P (lower_char c) = P c) \<Longrightarrow> dropWhile P (map lower_char xs) = map lower_char (dropWhile P xs)"
  by (induction xs) auto

lemma path_basename_lower: "path_basename (toLowerCase p) = toLowerCase (path_basename p)"
  by (simp add: path_basename_def toLowerCase_def rev_map takeWhile_map_lower dropWhile_map_lower)

lemma dotdot_lower: "(map lower_char b = ''..'') = (b = ''..'')"
proof -
  have e: "\<And>c. (lower_char c = CHR ''.'') = (c = CHR ''.'')"
    by (rule lower_char_eq_low) simp
  show ?thesis
    by (cases b; cases "tl b"; cases "tl (tl b)") (auto simp: e)
qed

lemma path_extname_lower: "path_extname (toLowerCase p) = toLowerCase (path_extname p)"
proof -
  have l: "lower_char CHR ''.'' = CHR ''.''" by (simp add: lower_char_def)
  show ?thesis
  unfolding path_extname_def path_basename_lower
  by (simp add: toLowerCase_def rev_map takeWhile_map_lower dotdot_lower Let_def l)
qed

lemma lower_char_idem [simp]: "lower_char (lower_char c) = lower_char c"
proof -
  from lower_char_cases [of c] show ?thesis
  proof
    assume "lower_char c = c" then show ?thesis by simp
  next
    assume h: "65 \<le> (of_char c :: nat) \<and> (of_char c :: nat) \<le> 90 \<and>
      lower_char c = char_of ((of_char c :: nat) + 32)"
    have "(of_char (lower_char c) :: nat) = ((of_char c :: nat) + 32) mod 256"
      using h by simp
    also have "\<dots> = (of_char c :: nat) + 32" using h by simp
    finally have "\<not> (of_char (lower_char c) :: nat) \<le> 90" using h by simp
    then show ?thesis by (simp add: lower_char_def [of "lower_char c"] Let_def)
  qed
qed

lemma toLowerCase_idem [simp]: "toLowerCase (toLowerCase s) = toLowerCase s"
  by (simp add: toLowerCase_def)

lemma getContentType_lower: "getContentType (toLowerCase f) = getContentType f"
  by (simp add: getContentType_def path_extname_lower)

lemma map_of_mimeTypes_None:
  "e \<notin> set (map fst mimeTypes) \<Longrightarrow> map_of mimeTypes e = None"
  by (simp add: map_of_eq_None_iff)

text \<open>
  Claim C9. \<open>getContentType\<close> does not depend on the case of the file name's letters: two
  names with the same lower-case form, and two names whose extensions have the same
  lower-case form, get the same type. It answers \<open>application/octet-stream\<close> whenever the
  lower-cased extension is not one of the ten keys of the table, and whenever the name
  has no extension. \<open>PHOTO.JPG\<close> is \<open>image/jpeg\<close>, \<open>noextension\<close> is
  \<open>application/octet-stream\<close>.
\<close>

theorem getContentType_spec:
  "(toLowerCase f = toLowerCase g \<longrightarrow> getContentType f = getContentType g) \<and>
   (toLowerCase (path_extname f) = toLowerCase (path_extname g) \<longrightarrow> getContentType f = getContentType g) \<and>
   (toLowerCase (path_extname f) \<notin> set (map fst mimeTypes) \<longrightarrow>
      getContentType f = ''application/octet-stream'') \<and>
   (path_extname f = [] \<longrightarrow> getContentType f = ''application/octet-stream'') \<and>
   length mimeTypes = 10 \<and>
   getContentType ''PHOTO.JPG'' = ''image/jpeg'' \<and>
   getContentType ''noextension'' = ''application/octet-stream''"
proof -
  have a: "toLowerCase f = toLowerCase g \<longrightarrow> getContentType f = getContentType g"
    by (metis getContentType_lower)
  have b: "toLowerCase (path_extname f) = toLowerCase (path_extname g) \<longrightarrow> getContentType f = getContentType g"
    by (simp add: getContentType_def)
  have c: "toLowerCase (path_extname f) \<notin> set (map fst mimeTypes) \<longrightarrow>
      getContentType f = ''application/octet-stream''"
    by (simp add: getContentType_def map_of_mimeTypes_None del: set_map)
  have d: "path_extname f = [] \<longrightarrow> getContentType f = ''application/octet-stream''"
    by (simp add: getContentType_def toLowerCase_def mimeTypes_def)
  have e: "length mimeTypes = 10" by (simp add: mimeTypes_def)
  have f: "getContentType ''PHOTO.JPG'' = ''image/jpeg''" by code_simp
  have g: "getContentType ''noextension'' = ''application/octet-stream''" by code_simp
  from a b c d e f g show ?thesis by blast
qed

theorem getContentType_spec_witness:
  "toLowerCase ''A.Png'' = toLowerCase ''a.pNG'' \<and> getContentType ''A.Png'' = getContentType ''a.pNG'' \<and>
   toLowerCase (path_extname ''x/report.PDF'') = toLowerCase (path_extname ''y.pdf'') \<and>
   getContentType ''x/report.PDF'' = getContentType ''y.pdf'' \<and>
   toLowerCase (path_extname ''archive.Zip'') \<notin> set (map fst mimeTypes) \<and>
   getContentType ''archive.Zip'' = ''application/octet-stream'' \<and>
   path_extname ''.bashrc'' = [] \<and> getContentType ''.bashrc'' = ''application/octet-stream''"
proof -
  have a: "toLowerCase ''A.Png'' = toLowerCase ''a.pNG''" by code_simp
  have b: "toLowerCase (path_extname ''x/report.PDF'') = toLowerCase (path_extname ''y.pdf'')" by code_simp
  have c: "toLowerCase (path_extname ''archive.Zip'') \<notin> set (map fst mimeTypes)" by code_simp
  have d: "path_extname ''.bashrc'' = []" by code_simp
  from a b c d
    getContentType_spec [of "''A.Png''" "''a.pNG''"]
    getContentType_spec [of "''x/report.PDF''" "''y.pdf''"]
    getContentType_spec [of "''archive.Zip''" "''archive.Zip''"]
    getContentType_spec [of "''.bashrc''" "''.bashrc''"]
  show ?thesis by blast
qed

section \<open>Properties of the command handlers\<close>

subsection \<open>Basic facts\<close>

lemma fst_prepend [simp]: "fst (prepend evs r) = evs @ fst r"
  by (simp add: prepend_def)

lemma snd_prepend [simp]: "snd (prepend evs r) = snd r"
  by (simp add: prepend_def)

lemma throw_simps [simp]: "fst (throw msg) = []" "snd (throw msg) = Some (JsError msg)"
  by (simp_all add: throw_def)

lemma on_data_Inl [simp]: "on_data c (Inl e) rest = ([Called c (Some e)], Some e)"
  by (simp add: on_data_def)

lemma on_data_Inr [simp]: "on_data c (Inr d) rest = (Called c None # rest d, None)"
  by (simp add: on_data_def)

lemma require_None [simp]: "require None msg rest = throw msg"
  by (simp add: require_def)

lemma require_Some [simp]: "require (Some s) msg rest = (if s = [] then throw msg else rest s)"
  by (simp add: require_def truthy_def)

lemma client_calls_append [simp]: "client_calls (xs @ ys) = client_calls xs @ client_calls ys"
  by (induction xs rule: client_calls.induct) auto

lemma constructed_append [simp]: "constructed (xs @ ys) = (constructed xs \<or> constructed ys)"
  by (induction xs rule: constructed.induct) auto

lemma trace_finish:
  "trace (finish r) = fst r @ (case snd r of None \<Rightarrow> [] | Some e \<Rightarrow> [Logged ChError (Text (message e))])"
  by (simp add: finish_def split: option.splits)

lemma exit_code_finish: "exit_code (finish r) = (case snd r of None \<Rightarrow> 0 | Some e \<Rightarrow> 1)"
  by (simp add: finish_def split: option.splits)

subsection \<open>The credential check\<close>

lemma resolved_key_chain:
  "resolved_key env fl = with_default (flag_key fl) (with_default (STORAGE_SERVICE_KEY env) [])"
  by (cases "STORAGE_SERVICE_KEY env") (simp_all add: resolved_key_def truthy_def)

text \<open>
  Claim C5. When the credential is empty, every handler logs \<open>Storage key not set\<close> on
  the error channel and the guidance on the info channel and exits with status 1, before
  the client is constructed and without any client operation. The credential of a built
  command is the \<open>--key\<close> flag, else \<open>STORAGE_SERVICE_KEY\<close>, else the empty string.
\<close>

theorem empty_key_fails_fast:
  "(cmd_key cmd = [] \<longrightarrow> main w cmd = missing_key) \<and>
   (resolved_key env fl = [] \<longrightarrow>
      cmd_key (BucketCmd (bucket_builder env fl a)) = [] \<and>
      cmd_key (FileCmd (file_builder env fl limit_flag upsert_flag b)) = [] \<and>
      cmd_key (UrlCmd (url_builder env fl expires_flag c)) = []) \<and>
   resolved_key env fl = with_default (flag_key fl) (with_default (STORAGE_SERVICE_KEY env) []) \<and>
   trace missing_key =
     [Logged ChError (Text ''Storage key not set''),
      Logged ChInfo (Text ''Set STORAGE_SERVICE_KEY or use --key option'')] \<and>
   exit_code missing_key = 1 \<and>
   \<not> constructed (trace missing_key) \<and>
   client_calls (trace missing_key) = []"
proof -
  have a: "cmd_key cmd = [] \<longrightarrow> main w cmd = missing_key"
    by (cases cmd) (simp_all add: bucket_handler_def file_handler_def url_handler_def truthy_def)
  have b: "resolved_key env fl = [] \<longrightarrow>
      cmd_key (BucketCmd (bucket_builder env fl a)) = [] \<and>
      cmd_key (FileCmd (file_builder env fl limit_flag upsert_flag b)) = [] \<and>
      cmd_key (UrlCmd (url_builder env fl expires_flag c)) = []"
    by (simp add: bucket_builder_def file_builder_def url_builder_def)
  have c: "trace missing_key =
     [Logged ChError (Text ''Storage key not set''),
      Logged ChInfo (Text ''Set STORAGE_SERVICE_KEY or use --key option'')] \<and>
   exit_code missing_key = 1 \<and>
   \<not> constructed (trace missing_key) \<and>
   client_calls (trace missing_key) = []"
    by (simp add: missing_key_def)
  from a b c resolved_key_chain show ?thesis by blast
qed

theorem empty_key_fails_fast_witness:
  "cmd_key (FileCmd ((file_args ''list'')\<lparr>arg_key := []\<rparr>)) = [] \<and>
   main quiet (FileCmd ((file_args ''list'')\<lparr>arg_key := []\<rparr>)) = missing_key \<and>
   resolved_key no_key_env no_flags = [] \<and>
   cmd_key (BucketCmd (bucket_builder no_key_env no_flags (bucket_args ''list''))) = [] \<and>
   main quiet (BucketCmd (bucket_builder no_key_env no_flags (bucket_args ''list''))) = missing_key \<and>
   main quiet (UrlCmd (url_builder no_key_env no_flags None (url_args ''public''))) = missing_key"
proof -
  have k: "cmd_key (FileCmd ((file_args ''list'')\<lparr>arg_key := []\<rparr>)) = []"
    by (simp add: file_args_def)
  have r: "resolved_key no_key_env no_flags = []"
    by (simp add: resolved_key_def no_key_env_def no_flags_def)
  from k r
    empty_key_fails_fast [of "FileCmd ((file_args ''list'')\<lparr>arg_key := []\<rparr>)" quiet
      no_key_env no_flags "bucket_args ''list''" None None "file_args ''list''" None "url_args ''public''"]
    empty_key_fails_fast [of "BucketCmd (bucket_builder no_key_env no_flags (bucket_args ''list''))" quiet
      no_key_env no_flags "bucket_args ''list''" None None "file_args ''list''" None "url_args ''public''"]
    empty_key_fails_fast [of "UrlCmd (url_builder no_key_env no_flags None (url_args ''public''))" quiet
      no_key_env no_flags "bucket_args ''list''" None None "file_args ''list''" None "url_args ''public''"]
  show ?thesis by blast
qed

lemma finish_throw [simp]:
  "finish (prepend [Constructed (arg_url a) (arg_key a)] (throw msg)) = rejected a msg"
  by (simp add: finish_def rejected_def)

lemma client_calls_log_json_if [simp]: "client_calls (log_json_if j p) = []"
  by (simp add: log_json_if_def)

subsection \<open>Bucket visibility\<close>

text \<open>
  Claim C3. With a bucket name and without \<open>--public\<close>: \<open>bucket update\<close> fails with
  \<open>--public flag required for update\<close> and status 1, without a client operation;
  \<open>bucket create\<close> makes the single call \<open>createBucket(name, { public: false })\<close> and,
  when the client returns no error, reports \<open>Bucket created\<close> and ends with status 0.
\<close>

theorem bucket_update_requires_public_create_defaults:
  assumes "arg_key a \<noteq> []" and "arg_name a = Some n" and "n \<noteq> []" and "arg_public a = None"
  shows "(arg_action a = ''update'' \<longrightarrow>
            bucket_handler w a = rejected a ''--public flag required for update'') \<and>
         (arg_action a = ''create'' \<longrightarrow>
            client_calls (trace (bucket_handler w a)) = [CreateBucket n False] \<and>
            (\<forall>d. api_createBucket w n False = Inr d \<longrightarrow>
               bucket_handler w a =
                 \<lparr>trace = [Constructed (arg_url a) (arg_key a), Called (CreateBucket n False) None,
                            Logged ChSuccess (Text (''Bucket created: '' @ n))] @
                           log_json_if (arg_json a) (PJson d),
                  exit_code = 0\<rparr>))"
proof -
  have u: "arg_action a = ''update'' \<longrightarrow>
            bucket_handler w a = rejected a ''--public flag required for update''"
    using assms by (simp add: bucket_handler_def bucket_switch_def updateBucket_def truthy_def)
  have c1: "arg_action a = ''create'' \<longrightarrow>
            client_calls (trace (bucket_handler w a)) = [CreateBucket n False]"
    using assms
    by (cases "api_createBucket w n False")
       (simp_all add: bucket_handler_def bucket_switch_def createBucket_def truthy_def trace_finish)
  have c2: "arg_action a = ''create'' \<longrightarrow> (\<forall>d. api_createBucket w n False = Inr d \<longrightarrow>
               bucket_handler w a =
                 \<lparr>trace = [Constructed (arg_url a) (arg_key a), Called (CreateBucket n False) None,
                            Logged ChSuccess (Text (''Bucket created: '' @ n))] @
                           log_json_if (arg_json a) (PJson d),
                  exit_code = 0\<rparr>)"
    using assms
    by (simp add: bucket_handler_def bucket_switch_def createBucket_def truthy_def finish_def prepend_def)
  from u c1 c2 show ?thesis by blast
qed


theorem bucket_update_requires_public_create_defaults_witness:
  "bucket_handler quiet ((bucket_args ''update'')\<lparr>arg_name := Some ''docs''\<rparr>) =
     rejected ((bucket_args ''update'')\<lparr>arg_name := Some ''docs''\<rparr>) ''--public flag required for update'' \<and>
   client_calls (trace (bucket_handler quiet ((bucket_args ''create'')\<lparr>arg_name := Some ''docs''\<rparr>))) =
     [CreateBucket ''docs'' False] \<and>
   exit_code (bucket_handler quiet ((bucket_args ''create'')\<lparr>arg_name := Some ''docs''\<rparr>)) = 0"
proof -
  let ?u = "(bucket_args ''update'')\<lparr>arg_name := Some ''docs''\<rparr>"
  let ?c = "(bucket_args ''create'')\<lparr>arg_name := Some ''docs''\<rparr>"
  have u: "arg_key ?u \<noteq> []" "arg_name ?u = Some ''docs''" "''docs'' \<noteq> []" "arg_public ?u = None"
    "arg_action ?u = ''update''"
    by (simp_all add: bucket_args_def)
  have c: "arg_key ?c \<noteq> []" "arg_name ?c = Some ''docs''" "arg_public ?c = None"
    "arg_action ?c = ''create''"
    by (simp_all add: bucket_args_def)
  have q: "api_createBucket quiet ''docs'' False = Inr JNull"
    by (simp add: quiet_def)
  from bucket_update_requires_public_create_defaults [OF u(1) u(2) u(3) u(4), of quiet] u(5)
  have 1: "bucket_handler quiet ?u = rejected ?u ''--public flag required for update''"
    by blast
  from bucket_update_requires_public_create_defaults [OF c(1) c(2) u(3) c(3), of quiet] c(4) q
  have 2: "client_calls (trace (bucket_handler quiet ?c)) = [CreateBucket ''docs'' False]"
    and 3: "exit_code (bucket_handler quiet ?c) = 0"
    by simp_all
  from 1 2 3 show ?thesis by blast
qed

lemma client_calls_map_Logged [simp]: "client_calls (map (\<lambda>x. Logged ch (g x)) xs) = []"
  by (induction xs) simp_all

lemma logged_on_append [simp]: "logged_on ch (xs @ ys) = logged_on ch xs @ logged_on ch ys"
  by (induction xs rule: logged_on.induct) auto

lemma logged_on_map_other [simp]:
  "ch' \<noteq> ch \<Longrightarrow> logged_on ch (map (\<lambda>x. Logged ch' (g x)) xs) = []"
  by (induction xs) simp_all

lemma logged_on_log_json_if [simp]: "logged_on ChSuccess (log_json_if j p) = []"
  by (simp add: log_json_if_def)

subsection \<open>Deleting files\<close>

text \<open>
  Claim C7. \<open>file delete bucket p1 ... pn\<close> makes exactly one client call, \<open>remove\<close> with
  the list of the paths in the order of the command line; when the client returns a list,
  the success message counts the entries of that list.
\<close>

theorem delete_issues_one_remove:
  assumes "arg_key a \<noteq> []" and "arg_bucket a \<noteq> []" and "arg_action a = ''delete''"
    and "arg_args a = Some ps" and "ps \<noteq> []"
  shows "client_calls (trace (file_handler w a)) = [Remove (arg_bucket a) ps] \<and>
         (\<forall>d. api_remove w (arg_bucket a) ps = Inr d \<longrightarrow>
            exit_code (file_handler w a) = 0 \<and>
            logged_on ChSuccess (trace (file_handler w a)) =
              [Text (''Deleted '' @ string_of_nat (length d) @ '' file(s)'')])"
proof -
  have sw: "file_switch w a = deleteFiles w (arg_bucket a) ps (arg_json a)"
    using assms by (simp add: file_switch_def args_or_empty_def)
  have h: "file_handler w a =
      finish (prepend [Constructed (arg_url a) (arg_key a)] (deleteFiles w (arg_bucket a) ps (arg_json a)))"
    using assms sw by (simp add: file_handler_def truthy_def)
  have calls: "client_calls (trace (file_handler w a)) = [Remove (arg_bucket a) ps]"
    unfolding h
    by (cases "api_remove w (arg_bucket a) ps")
       (simp_all add: deleteFiles_def trace_finish)
  have ok: "\<forall>d. api_remove w (arg_bucket a) ps = Inr d \<longrightarrow>
            exit_code (file_handler w a) = 0 \<and>
            logged_on ChSuccess (trace (file_handler w a)) =
              [Text (''Deleted '' @ string_of_nat (length d) @ '' file(s)'')]"
    unfolding h
    by (simp add: deleteFiles_def trace_finish exit_code_finish)
  from calls ok show ?thesis by blast
qed


theorem delete_issues_one_remove_witness:
  "client_calls (trace (file_handler (quiet\<lparr>api_remove := (\<lambda>b ps. Inr two_removed)\<rparr>)
       ((file_args ''delete'')\<lparr>arg_args := Some [''a.txt'', ''b.txt'']\<rparr>))) =
     [Remove ''test-bucket'' [''a.txt'', ''b.txt'']] \<and>
   logged_on ChSuccess (trace (file_handler (quiet\<lparr>api_remove := (\<lambda>b ps. Inr two_removed)\<rparr>)
       ((file_args ''delete'')\<lparr>arg_args := Some [''a.txt'', ''b.txt'']\<rparr>))) =
     [Text ''Deleted 1 file(s)'']"
proof -
  let ?a = "(file_args ''delete'')\<lparr>arg_args := Some [''a.txt'', ''b.txt'']\<rparr>"
  let ?w = "quiet\<lparr>api_remove := (\<lambda>b ps. Inr two_removed)\<rparr>"
  have p: "arg_key ?a \<noteq> []" "arg_bucket ?a \<noteq> []" "arg_action ?a = ''delete''"
    "arg_args ?a = Some [''a.txt'', ''b.txt'']" "[''a.txt'', ''b.txt''] \<noteq> []"
    by (simp_all add: file_args_def)
  have b: "arg_bucket ?a = ''test-bucket''" by (simp add: file_args_def)
  have r: "api_remove ?w ''test-bucket'' [''a.txt'', ''b.txt''] = Inr two_removed" by simp
  have n: "string_of_nat (length two_removed) = ''1''"
    by (simp add: two_removed_def string_of_nat.simps digit_char_def)
  from delete_issues_one_remove [OF p, of ?w] b r n show ?thesis by simp
qed

subsection \<open>Signed URLs for several paths\<close>

lemma client_calls_item_lines [simp]: "client_calls (concat (map item_lines d)) = []"
  by (induction d) (simp_all add: item_lines_def)

lemma logged_on_success_item_lines [simp]: "logged_on ChSuccess (concat (map item_lines d)) = []"
  by (induction d) (simp_all add: item_lines_def)

lemma signed_urls_paths_simps:
  "p \<noteq> [] \<Longrightarrow> signed_urls_paths (Some p) (Some ps) = p # ps"
  "signed_urls_paths None (Some ps) = ps"
  by (simp_all add: signed_urls_paths_def args_or_empty_def truthy_def)

lemma url_builder_fields [simp]:
  "arg_key (url_builder env fl ex parsed) = resolved_key env fl"
  "arg_url (url_builder env fl ex parsed) = resolved_url env fl"
  "arg_json (url_builder env fl ex parsed) = resolved_json fl"
  "arg_expires (url_builder env fl ex parsed) = with_default ex 3600"
  "arg_action (url_builder env fl ex parsed) = arg_action parsed"
  "arg_bucket (url_builder env fl ex parsed) = arg_bucket parsed"
  "arg_path (url_builder env fl ex parsed) = arg_path parsed"
  "arg_args (url_builder env fl ex parsed) = arg_args parsed"
  "arg_download (url_builder env fl ex parsed) = arg_download parsed"
  by (simp_all add: url_builder_def)

text \<open>
  Claim C6. \<open>url signed-urls\<close> with the paths of the command line (the \<open>path\<close> positional
  followed by the extra arguments) makes exactly one client call, \<open>createSignedUrls\<close> with
  all the paths and the expiry, 3600 when \<open>--expires\<close> is not given. In text mode, when the
  client returns a list, the run logs for every returned entry its lines, starting with
  the cross when the entry carries an error and with the check mark otherwise, and ends
  with the tally \<open>k/n URLs generated successfully\<close>, \<open>n\<close> the number of returned entries
  and \<open>k\<close> the number of those without an error.
\<close>

theorem signed_urls_one_call_and_tally:
  assumes "resolved_key env fl \<noteq> []" and "arg_bucket parsed \<noteq> []"
    and "arg_action parsed = ''signed-urls''"
    and "signed_urls_paths (arg_path parsed) (arg_args parsed) = paths" and "paths \<noteq> []"
  shows "client_calls (trace (url_handler w (url_builder env fl expires_flag parsed))) =
           [CreateSignedUrls (arg_bucket parsed) paths (with_default expires_flag 3600)
              (arg_download parsed)] \<and>
         (\<forall>d. api_createSignedUrls w (arg_bucket parsed) paths (with_default expires_flag 3600)
                 (arg_download parsed) = Inr d \<and> \<not> resolved_json fl \<longrightarrow>
            url_handler w (url_builder env fl expires_flag parsed) =
              \<lparr>trace =
                 [Constructed (resolved_url env fl) (resolved_key env fl),
                  Logged ChInfo (Text (''Creating signed URLs for '' @ string_of_nat (length paths) @
                    '' file(s)...'')),
                  Called (CreateSignedUrls (arg_bucket parsed) paths (with_default expires_flag 3600)
                    (arg_download parsed)) None,
                  Logged ChLog (Text (newline @ emoji_key_lock @ '' Signed URLs (expires in '' @
                    string_of_int (with_default expires_flag 3600) @ ''s):'' @ newline))] @
                 concat (map item_lines d) @
                 [Logged ChSuccess (Text (newline @
                    string_of_nat (length (filter (\<lambda>item. \<not> item_failed item) d)) @ ''/'' @
                    string_of_nat (length d) @ '' URLs generated successfully''))],
               exit_code = 0\<rparr>) \<and>
         (\<forall>item. item_failed item = (\<exists>e. s_error item = Some e \<and> e \<noteq> [])) \<and>
         (\<forall>item. item_failed item \<longrightarrow>
            item_lines item =
              [Logged ChLog (Text (''  '' @ cross_mark @ '' '' @ str_or_null (s_path item) @ '': '' @
                 str_or_null (s_error item)))]) \<and>
         (\<forall>item. \<not> item_failed item \<longrightarrow>
            item_lines item =
              [Logged ChLog (Text (''  '' @ check_mark @ '' '' @ str_or_null (s_path item))),
               Logged ChLog (Text (''    '' @ str_or_null (s_signedUrl item)))]) \<and>
         (\<forall>p ps. p \<noteq> [] \<longrightarrow> signed_urls_paths (Some p) (Some ps) = p # ps) \<and>
         (\<forall>ps. signed_urls_paths None (Some ps) = ps)"
proof -
  let ?a = "url_builder env fl expires_flag parsed"
  let ?ex = "with_default expires_flag 3600"
  have sw: "url_switch w ?a =
      getSignedUrls w (arg_bucket parsed) paths ?ex (arg_download parsed) (resolved_json fl)"
    using assms by (simp add: url_switch_def)
  have h: "url_handler w ?a =
      finish (prepend [Constructed (resolved_url env fl) (resolved_key env fl)]
        (getSignedUrls w (arg_bucket parsed) paths ?ex (arg_download parsed) (resolved_json fl)))"
    using assms sw by (simp add: url_handler_def truthy_def)
  have calls: "client_calls (trace (url_handler w ?a)) =
           [CreateSignedUrls (arg_bucket parsed) paths ?ex (arg_download parsed)]"
    unfolding h
    by (cases "api_createSignedUrls w (arg_bucket parsed) paths ?ex (arg_download parsed)")
       (simp_all add: getSignedUrls_def trace_finish)
  have ok: "\<forall>d. api_createSignedUrls w (arg_bucket parsed) paths ?ex (arg_download parsed) = Inr d \<and>
              \<not> resolved_json fl \<longrightarrow>
            url_handler w ?a =
              \<lparr>trace =
                 [Constructed (resolved_url env fl) (resolved_key env fl),
                  Logged ChInfo (Text (''Creating signed URLs for '' @ string_of_nat (length paths) @
                    '' file(s)...'')),
                  Called (CreateSignedUrls (arg_bucket parsed) paths ?ex (arg_download parsed)) None,
                  Logged ChLog (Text (newline @ emoji_key_lock @ '' Signed URLs (expires in '' @
                    string_of_int ?ex @ ''s):'' @ newline))] @
                 concat (map item_lines d) @
                 [Logged ChSuccess (Text (newline @
                    string_of_nat (length (filter (\<lambda>item. \<not> item_failed item) d)) @ ''/'' @
                    string_of_nat (length d) @ '' URLs generated successfully''))],
               exit_code = 0\<rparr>"
    unfolding h
    by (simp add: getSignedUrls_def finish_def prepend_def tally_def)
  have f: "\<forall>item. item_failed item = (\<exists>e. s_error item = Some e \<and> e \<noteq> [])"
  proof
    fix item show "item_failed item = (\<exists>e. s_error item = Some e \<and> e \<noteq> [])"
      by (cases "s_error item") (simp_all add: item_failed_def truthy_def)
  qed
  have l1: "\<forall>item. item_failed item \<longrightarrow>
            item_lines item =
              [Logged ChLog (Text (''  '' @ cross_mark @ '' '' @ str_or_null (s_path item) @ '': '' @
                 str_or_null (s_error item)))]"
    by (simp add: item_lines_def)
  have l2: "\<forall>item. \<not> item_failed item \<longrightarrow>
            item_lines item =
              [Logged ChLog (Text (''  '' @ check_mark @ '' '' @ str_or_null (s_path item))),
               Logged ChLog (Text (''    '' @ str_or_null (s_signedUrl item)))]"
    by (simp add: item_lines_def)
  from calls ok f l1 l2 signed_urls_paths_simps show ?thesis by blast
qed



theorem signed_urls_one_call_and_tally_witness:
  "client_calls (trace (url_handler (quiet\<lparr>api_createSignedUrls := (\<lambda>b ps e d. Inr two_items)\<rparr>)
      (url_builder no_key_env key_flag None
         ((url_args ''signed-urls'')\<lparr>arg_path := Some ''file1.txt'', arg_args := Some [''missing.txt'']\<rparr>)))) =
     [CreateSignedUrls ''test-bucket'' [''file1.txt'', ''missing.txt''] 3600 None] \<and>
   logged_on ChSuccess (trace (url_handler (quiet\<lparr>api_createSignedUrls := (\<lambda>b ps e d. Inr two_items)\<rparr>)
      (url_builder no_key_env key_flag None
         ((url_args ''signed-urls'')\<lparr>arg_path := Some ''file1.txt'', arg_args := Some [''missing.txt'']\<rparr>)))) =
     [Text (newline @ ''1/2 URLs generated successfully'')] \<and>
   item_failed (two_items ! 1) \<and> \<not> item_failed (two_items ! 0) \<and>
   item_lines (two_items ! 1) =
     [Logged ChLog (Text (''  '' @ cross_mark @ '' missing.txt: File not found''))] \<and>
   item_lines (two_items ! 0) =
     [Logged ChLog (Text (''  '' @ check_mark @ '' file1.txt'')),
      Logged ChLog (Text ''    http://localhost/file1.txt?token=abc'')]"
proof -
  let ?p = "(url_args ''signed-urls'')\<lparr>arg_path := Some ''file1.txt'', arg_args := Some [''missing.txt'']\<rparr>"
  let ?w = "quiet\<lparr>api_createSignedUrls := (\<lambda>b ps e d. Inr two_items)\<rparr>"
  have p: "resolved_key no_key_env key_flag \<noteq> []" "arg_bucket ?p \<noteq> []"
    "arg_action ?p = ''signed-urls''"
    "signed_urls_paths (arg_path ?p) (arg_args ?p) = [''file1.txt'', ''missing.txt'']"
    "[''file1.txt'', ''missing.txt''] \<noteq> []"
    by (simp_all add: url_args_def resolved_key_def key_flag_def signed_urls_paths_def
        args_or_empty_def truthy_def)
  have f: "arg_bucket ?p = ''test-bucket''" "arg_download ?p = None"
    "\<not> resolved_json key_flag"
    by (simp_all add: url_args_def resolved_json_def key_flag_def)
  have r: "api_createSignedUrls ?w ''test-bucket'' [''file1.txt'', ''missing.txt''] 3600 None = Inr two_items"
    by simp
  have i: "item_failed (two_items ! 1)" "\<not> item_failed (two_items ! 0)"
    by (simp_all add: two_items_def item_failed_def truthy_def)
  have n: "string_of_nat (length (filter (\<lambda>item. \<not> item_failed item) two_items)) = ''1''"
    "string_of_nat (length two_items) = ''2''"
    by (simp_all add: two_items_def item_failed_def truthy_def string_of_nat.simps digit_char_def)
  have s: "str_or_null (s_path (two_items ! 1)) = ''missing.txt''"
    "str_or_null (s_error (two_items ! 1)) = ''File not found''"
    "str_or_null (s_path (two_items ! 0)) = ''file1.txt''"
    "str_or_null (s_signedUrl (two_items ! 0)) = ''http://localhost/file1.txt?token=abc''"
    by (simp_all add: two_items_def)
  note t = signed_urls_one_call_and_tally [OF p, of ?w None]
  from t f have 1: "client_calls (trace (url_handler ?w (url_builder no_key_env key_flag None ?p))) =
     [CreateSignedUrls ''test-bucket'' [''file1.txt'', ''missing.txt''] 3600 None]"
    by simp
  from t f r have h: "url_handler ?w (url_builder no_key_env key_flag None ?p) =
              \<lparr>trace =
                 [Constructed (resolved_url no_key_env key_flag) (resolved_key no_key_env key_flag),
                  Logged ChInfo (Text (''Creating signed URLs for '' @
                    string_of_nat (length [''file1.txt'', ''missing.txt'']) @ '' file(s)...'')),
                  Called (CreateSignedUrls ''test-bucket'' [''file1.txt'', ''missing.txt''] 3600 None) None,
                  Logged ChLog (Text (newline @ emoji_key_lock @ '' Signed URLs (expires in '' @
                    string_of_int 3600 @ ''s):'' @ newline))] @
                 concat (map item_lines two_items) @
                 [Logged ChSuccess (Text (newline @
                    string_of_nat (length (filter (\<lambda>item. \<not> item_failed item) two_items)) @ ''/'' @
                    string_of_nat (length two_items) @ '' URLs generated successfully''))],
               exit_code = 0\<rparr>"
    by simp
  have 2: "logged_on ChSuccess (trace (url_handler ?w (url_builder no_key_env key_flag None ?p))) =
     [Text (newline @ ''1/2 URLs generated successfully'')]"
    unfolding h by (simp add: n)
  from t i s have 3: "item_lines (two_items ! 1) =
     [Logged ChLog (Text (''  '' @ cross_mark @ '' missing.txt: File not found''))]"
    by simp
  from t i s have 4: "item_lines (two_items ! 0) =
     [Logged ChLog (Text (''  '' @ check_mark @ '' file1.txt'')),
      Logged ChLog (Text ''    http://localhost/file1.txt?token=abc'')]"
    by simp
  from 1 2 3 4 i show ?thesis by blast
qed

subsection \<open>The remote path of download, info and exists\<close>

lemma actualPath_flag [simp]: "p \<noteq> [] \<Longrightarrow> actualPath (Some p) xs = Some p"
  by (simp add: actualPath_def truthy_def)

lemma actualPath_positional [simp]:
  "\<not> truthy_opt q \<Longrightarrow> actualPath q (x # xs) = Some x"
  by (simp add: actualPath_def first_arg_def)

lemma calls_downloadFile [simp]:
  "client_calls (fst (downloadFile w b p out j)) = [Download b p]"
  by (cases "api_download w b p"; cases "fs_writeFileSync w (or_else out (path_basename p)) (projr (api_download w b p))")
     (simp_all add: downloadFile_def Let_def)

lemma calls_getFileInfo [simp]:
  "client_calls (fst (getFileInfo w b p j)) = [Info b p]"
  by (cases "api_info w b p") (simp_all add: getFileInfo_def)

lemma calls_checkFileExists [simp]:
  "client_calls (fst (checkFileExists w b p j)) = [Exists b p]"
  by (simp add: checkFileExists_def Let_def)

lemma client_calls_trace_finish [simp]:
  "client_calls (trace (finish r)) = client_calls (fst r)"
  by (simp add: trace_finish split: option.splits)

text \<open>
  Claim C10. For \<open>file download\<close>, \<open>file info\<close> and \<open>file exists\<close> the remote path is the
  \<open>--path\<close> flag or, without it, the first extra positional argument. With a
  (non-empty) \<open>--path\<close> the positional arguments are ignored: the run is the same
  whatever they are, and the client is called with the flag's path.
\<close>

theorem path_flag_precedes_positional:
  assumes "arg_key a \<noteq> []" and "arg_bucket a \<noteq> []"
    and "arg_action a = ''download'' \<or> arg_action a = ''info'' \<or> arg_action a = ''exists''"
  shows "(arg_path a = Some p \<and> p \<noteq> [] \<longrightarrow>
            file_handler w (a\<lparr>arg_args := other\<rparr>) = file_handler w a \<and>
            client_calls (trace (file_handler w a)) =
              [if arg_action a = ''download'' then Download (arg_bucket a) p
               else if arg_action a = ''info'' then Info (arg_bucket a) p
               else Exists (arg_bucket a) p]) \<and>
         (\<not> truthy_opt (arg_path a) \<and> arg_args a = Some (x # xs) \<and> x \<noteq> [] \<longrightarrow>
            client_calls (trace (file_handler w a)) =
              [if arg_action a = ''download'' then Download (arg_bucket a) x
               else if arg_action a = ''info'' then Info (arg_bucket a) x
               else Exists (arg_bucket a) x])"
proof -
  have flag: "arg_path a = Some p \<and> p \<noteq> [] \<longrightarrow>
            file_handler w (a\<lparr>arg_args := other\<rparr>) = file_handler w a"
    using assms by (auto simp: file_handler_def file_switch_def truthy_def)
  have flag_call: "arg_path a = Some p \<and> p \<noteq> [] \<longrightarrow>
            client_calls (trace (file_handler w a)) =
              [if arg_action a = ''download'' then Download (arg_bucket a) p
               else if arg_action a = ''info'' then Info (arg_bucket a) p
               else Exists (arg_bucket a) p]"
    using assms by (auto simp: file_handler_def file_switch_def truthy_def)
  have pos: "\<not> truthy_opt (arg_path a) \<and> arg_args a = Some (x # xs) \<and> x \<noteq> [] \<longrightarrow>
            client_calls (trace (file_handler w a)) =
              [if arg_action a = ''download'' then Download (arg_bucket a) x
               else if arg_action a = ''info'' then Info (arg_bucket a) x
               else Exists (arg_bucket a) x]"
    using assms by (auto simp: file_handler_def file_switch_def truthy_def args_or_empty_def)
  from flag flag_call pos show ?thesis by blast
qed

theorem path_flag_precedes_positional_witness:
  "file_handler quiet ((file_args ''info'')\<lparr>arg_path := Some ''a.txt'', arg_args := Some [''b.txt'']\<rparr>) =
     file_handler quiet ((file_args ''info'')\<lparr>arg_path := Some ''a.txt''\<rparr>) \<and>
   client_calls (trace (file_handler quiet
     ((file_args ''info'')\<lparr>arg_path := Some ''a.txt'', arg_args := Some [''b.txt'']\<rparr>))) =
     [Info ''test-bucket'' ''a.txt''] \<and>
   client_calls (trace (file_handler quiet ((file_args ''download'')\<lparr>arg_args := Some [''b.txt'']\<rparr>))) =
     [Download ''test-bucket'' ''b.txt''] \<and>
   client_calls (trace (file_handler quiet
     ((file_args ''exists'')\<lparr>arg_path := Some ''a.txt'', arg_args := Some [''b.txt'']\<rparr>))) =
     [Exists ''test-bucket'' ''a.txt'']"
proof -
  let ?i = "(file_args ''info'')\<lparr>arg_path := Some ''a.txt''\<rparr>"
  let ?i2 = "(file_args ''info'')\<lparr>arg_path := Some ''a.txt'', arg_args := Some [''b.txt'']\<rparr>"
  let ?d = "(file_args ''download'')\<lparr>arg_args := Some [''b.txt'']\<rparr>"
  let ?e = "(file_args ''exists'')\<lparr>arg_path := Some ''a.txt'', arg_args := Some [''b.txt'']\<rparr>"
  have i: "arg_key ?i \<noteq> []" "arg_bucket ?i \<noteq> []"
    "arg_action ?i = ''download'' \<or> arg_action ?i = ''info'' \<or> arg_action ?i = ''exists''"
    by (simp_all add: file_args_def)
  have i2: "arg_key ?i2 \<noteq> []" "arg_bucket ?i2 \<noteq> []"
    "arg_action ?i2 = ''download'' \<or> arg_action ?i2 = ''info'' \<or> arg_action ?i2 = ''exists''"
    by (simp_all add: file_args_def)
  have d: "arg_key ?d \<noteq> []" "arg_bucket ?d \<noteq> []"
    "arg_action ?d = ''download'' \<or> arg_action ?d = ''info'' \<or> arg_action ?d = ''exists''"
    by (simp_all add: file_args_def)
  have e: "arg_key ?e \<noteq> []" "arg_bucket ?e \<noteq> []"
    "arg_action ?e = ''download'' \<or> arg_action ?e = ''info'' \<or> arg_action ?e = ''exists''"
    by (simp_all add: file_args_def)
  have u: "?i\<lparr>arg_args := Some [''b.txt'']\<rparr> = ?i2" by simp
  from path_flag_precedes_positional [OF i, of "''a.txt''" quiet "Some [''b.txt'']"] u
  have 1: "file_handler quiet ?i2 = file_handler quiet ?i"
    by (simp add: file_args_def)
  from path_flag_precedes_positional [OF i2, of "''a.txt''" quiet]
  have 2: "client_calls (trace (file_handler quiet ?i2)) = [Info ''test-bucket'' ''a.txt'']"
    by (simp add: file_args_def)
  from path_flag_precedes_positional [OF d, of _ quiet _ "''b.txt''" "[]"]
  have 3: "client_calls (trace (file_handler quiet ?d)) = [Download ''test-bucket'' ''b.txt'']"
    by (simp add: file_args_def)
  from path_flag_precedes_positional [OF e, of "''a.txt''" quiet]
  have 4: "client_calls (trace (file_handler quiet ?e)) = [Exists ''test-bucket'' ''a.txt'']"
    by (simp add: file_args_def)
  from 1 2 3 4 show ?thesis by blast
qed

subsection \<open>Source and destination of upload and update\<close>

lemma calls_uploadFile:
  "fs_readFileSync w f = Inr buf \<Longrightarrow> fs_statSync w f = Inr n \<Longrightarrow>
   client_calls (fst (uploadFile w b f p u j)) =
     [Upload b (or_else p (path_basename f)) buf u (getContentType f)]"
  by (cases "api_upload w b (or_else p (path_basename f)) buf u (getContentType f)")
     (simp_all add: uploadFile_def Let_def)

lemma calls_updateFile:
  "fs_readFileSync w f = Inr buf \<Longrightarrow> fs_statSync w f = Inr n \<Longrightarrow>
   client_calls (fst (updateFile w b f p u j)) = [Update b p buf u (getContentType f)]"
  by (cases "api_update w b p buf u (getContentType f)")
     (simp_all add: updateFile_def Let_def)

lemma or_else_simps:
  "\<not> truthy_opt q \<Longrightarrow> or_else q d = d"
  "s \<noteq> [] \<Longrightarrow> or_else (Some s) d = s"
  by (cases q; simp add: truthy_def)+

text \<open>
  Claim C2, as the code has it. \<open>file upload\<close> and \<open>file update\<close> both fail without
  \<open>--file\<close>. \<open>file upload\<close> without \<open>--path\<close> uploads to the base name of the local file,
  and to the given path otherwise. \<open>file update\<close> without \<open>--path\<close> fails with
  \<open>Remote path required (use --path to specify destination)\<close>; with both it updates the
  given path.
\<close>

theorem upload_defaults_destination_update_requires_path:
  assumes "arg_key a \<noteq> []" and "arg_bucket a \<noteq> []"
  shows "((arg_action a = ''upload'' \<or> arg_action a = ''update'') \<and> \<not> truthy_opt (arg_file a) \<longrightarrow>
            file_handler w a = rejected a ''File path required (use --file)'') \<and>
         (arg_action a = ''upload'' \<and> arg_file a = Some f \<and> f \<noteq> [] \<and>
          fs_readFileSync w f = Inr buf \<and> fs_statSync w f = Inr n \<and> \<not> truthy_opt (arg_path a) \<longrightarrow>
            client_calls (trace (file_handler w a)) =
              [Upload (arg_bucket a) (path_basename f) buf (arg_upsert a) (getContentType f)]) \<and>
         (arg_action a = ''upload'' \<and> arg_file a = Some f \<and> f \<noteq> [] \<and>
          fs_readFileSync w f = Inr buf \<and> fs_statSync w f = Inr n \<and>
          arg_path a = Some p \<and> p \<noteq> [] \<longrightarrow>
            client_calls (trace (file_handler w a)) =
              [Upload (arg_bucket a) p buf (arg_upsert a) (getContentType f)]) \<and>
         (arg_action a = ''update'' \<and> arg_file a = Some f \<and> f \<noteq> [] \<and> \<not> truthy_opt (arg_path a) \<longrightarrow>
            file_handler w a =
              rejected a ''Remote path required (use --path to specify destination)'') \<and>
         (arg_action a = ''update'' \<and> arg_file a = Some f \<and> f \<noteq> [] \<and>
          fs_readFileSync w f = Inr buf \<and> fs_statSync w f = Inr n \<and>
          arg_path a = Some p \<and> p \<noteq> [] \<longrightarrow>
            client_calls (trace (file_handler w a)) =
              [Update (arg_bucket a) p buf (arg_upsert a) (getContentType f)])"
proof -
  have nofile: "(arg_action a = ''upload'' \<or> arg_action a = ''update'') \<and> \<not> truthy_opt (arg_file a) \<longrightarrow>
            file_handler w a = rejected a ''File path required (use --file)''"
    using assms
    by (cases "arg_file a") (auto simp: file_handler_def file_switch_def truthy_def)
  have up1: "arg_action a = ''upload'' \<and> arg_file a = Some f \<and> f \<noteq> [] \<and>
          fs_readFileSync w f = Inr buf \<and> fs_statSync w f = Inr n \<and> \<not> truthy_opt (arg_path a) \<longrightarrow>
            client_calls (trace (file_handler w a)) =
              [Upload (arg_bucket a) (path_basename f) buf (arg_upsert a) (getContentType f)]"
    using assms
    by (simp add: file_handler_def file_switch_def truthy_def calls_uploadFile or_else_simps(1))
  have up2: "arg_action a = ''upload'' \<and> arg_file a = Some f \<and> f \<noteq> [] \<and>
          fs_readFileSync w f = Inr buf \<and> fs_statSync w f = Inr n \<and>
          arg_path a = Some p \<and> p \<noteq> [] \<longrightarrow>
            client_calls (trace (file_handler w a)) =
              [Upload (arg_bucket a) p buf (arg_upsert a) (getContentType f)]"
    using assms
    by (auto simp: file_handler_def file_switch_def truthy_def calls_uploadFile)
  have ud1: "arg_action a = ''update'' \<and> arg_file a = Some f \<and> f \<noteq> [] \<and> \<not> truthy_opt (arg_path a) \<longrightarrow>
            file_handler w a =
              rejected a ''Remote path required (use --path to specify destination)''"
    using assms
    by (cases "arg_path a") (auto simp: file_handler_def file_switch_def truthy_def)
  have ud2: "arg_action a = ''update'' \<and> arg_file a = Some f \<and> f \<noteq> [] \<and>
          fs_readFileSync w f = Inr buf \<and> fs_statSync w f = Inr n \<and>
          arg_path a = Some p \<and> p \<noteq> [] \<longrightarrow>
            client_calls (trace (file_handler w a)) =
              [Update (arg_bucket a) p buf (arg_upsert a) (getContentType f)]"
    using assms
    by (auto simp: file_handler_def file_switch_def truthy_def calls_updateFile)
  from nofile up1 up2 ud1 ud2 show ?thesis by blast
qed

text \<open>
  \<open>file update\<close> with \<open>--file\<close> and without \<open>--path\<close>: status 1, the error message, and no
  client operation (no default destination).
\<close>

theorem update_without_path_counterexample:
  "exit_code (file_handler quiet ((file_args ''update'')\<lparr>arg_file := Some ''/local/test.txt''\<rparr>)) = 1 \<and>
   client_calls (trace (file_handler quiet
     ((file_args ''update'')\<lparr>arg_file := Some ''/local/test.txt''\<rparr>))) = [] \<and>
   logged_on ChError (trace (file_handler quiet
     ((file_args ''update'')\<lparr>arg_file := Some ''/local/test.txt''\<rparr>))) =
     [Text ''Remote path required (use --path to specify destination)'']"
  by (simp add: file_handler_def file_switch_def file_args_def truthy_def trace_finish exit_code_finish)

theorem upload_defaults_destination_update_requires_path_witness:
  "client_calls (trace (file_handler quiet ((file_args ''upload'')\<lparr>arg_file := Some ''/local/test.txt''\<rparr>))) =
     [Upload ''test-bucket'' ''test.txt'' [] False ''text/plain''] \<and>
   client_calls (trace (file_handler quiet
     ((file_args ''upload'')\<lparr>arg_file := Some ''/local/test.txt'', arg_path := Some ''remote/a.txt''\<rparr>))) =
     [Upload ''test-bucket'' ''remote/a.txt'' [] False ''text/plain''] \<and>
   file_handler quiet (file_args ''upload'') =
     rejected (file_args ''upload'') ''File path required (use --file)'' \<and>
   file_handler quiet (file_args ''update'') =
     rejected (file_args ''update'') ''File path required (use --file)'' \<and>
   file_handler quiet ((file_args ''update'')\<lparr>arg_file := Some ''/local/test.txt''\<rparr>) =
     rejected ((file_args ''update'')\<lparr>arg_file := Some ''/local/test.txt''\<rparr>)
       ''Remote path required (use --path to specify destination)'' \<and>
   client_calls (trace (file_handler quiet
     ((file_args ''update'')\<lparr>arg_file := Some ''/local/test.txt'', arg_path := Some ''remote/a.txt''\<rparr>))) =
     [Update ''test-bucket'' ''remote/a.txt'' [] False ''text/plain'']"
proof -
  let ?f = "''/local/test.txt''"
  let ?u1 = "(file_args ''upload'')\<lparr>arg_file := Some ?f\<rparr>"
  let ?u2 = "(file_args ''upload'')\<lparr>arg_file := Some ?f, arg_path := Some ''remote/a.txt''\<rparr>"
  let ?d1 = "(file_args ''update'')\<lparr>arg_file := Some ?f\<rparr>"
  let ?d2 = "(file_args ''update'')\<lparr>arg_file := Some ?f, arg_path := Some ''remote/a.txt''\<rparr>"
  have k: "arg_key ?u1 \<noteq> []" "arg_bucket ?u1 \<noteq> []" "arg_key ?u2 \<noteq> []" "arg_bucket ?u2 \<noteq> []"
    "arg_key ?d1 \<noteq> []" "arg_bucket ?d1 \<noteq> []" "arg_key ?d2 \<noteq> []" "arg_bucket ?d2 \<noteq> []"
    "arg_key (file_args ''upload'') \<noteq> []" "arg_bucket (file_args ''upload'') \<noteq> []"
    "arg_key (file_args ''update'') \<noteq> []" "arg_bucket (file_args ''update'') \<noteq> []"
    by (simp_all add: file_args_def)
  have fs: "fs_readFileSync quiet ?f = Inr []" "fs_statSync quiet ?f = Inr 0"
    by (simp_all add: quiet_def)
  have b: "path_basename ?f = ''test.txt''" "getContentType ?f = ''text/plain''"
    by code_simp+
  from upload_defaults_destination_update_requires_path [OF k(1) k(2), of quiet ?f "[]" 0] fs b
  have 1: "client_calls (trace (file_handler quiet ?u1)) =
     [Upload ''test-bucket'' ''test.txt'' [] False ''text/plain'']"
    by (simp add: file_args_def)
  from upload_defaults_destination_update_requires_path [OF k(3) k(4), of quiet ?f "[]" 0 "''remote/a.txt''"] fs b
  have 2: "client_calls (trace (file_handler quiet ?u2)) =
     [Upload ''test-bucket'' ''remote/a.txt'' [] False ''text/plain'']"
    by (simp add: file_args_def)
  from upload_defaults_destination_update_requires_path [OF k(9) k(10), of quiet]
  have 3: "file_handler quiet (file_args ''upload'') =
     rejected (file_args ''upload'') ''File path required (use --file)''"
    by (simp add: file_args_def)
  from upload_defaults_destination_update_requires_path [OF k(11) k(12), of quiet]
  have 4: "file_handler quiet (file_args ''update'') =
     rejected (file_args ''update'') ''File path required (use --file)''"
    by (simp add: file_args_def)
  from upload_defaults_destination_update_requires_path [OF k(5) k(6), of quiet ?f]
  have 5: "file_handler quiet ?d1 =
     rejected ?d1 ''Remote path required (use --path to specify destination)''"
    by (simp add: file_args_def)
  from upload_defaults_destination_update_requires_path [OF k(7) k(8), of quiet ?f "[]" 0 "''remote/a.txt''"] fs b
  have 6: "client_calls (trace (file_handler quiet ?d2)) =
     [Update ''test-bucket'' ''remote/a.txt'' [] False ''text/plain'']"
    by (simp add: file_args_def)
  from 1 2 3 4 5 6 show ?thesis by blast
qed

subsection \<open>Missing arguments\<close>

lemma require_falsy [simp]: "\<not> truthy_opt x \<Longrightarrow> require x msg rest = throw msg"
  by (cases x) (simp_all add: truthy_def)

lemma require_both_falsy [simp]:
  "\<not> truthy_opt x \<or> \<not> truthy_opt y \<Longrightarrow> require_both x y msg rest = throw msg"
  by (cases x; cases y) (auto simp: require_both_def truthy_def)

lemma actualPath_none [simp]:
  "\<not> truthy_opt q \<Longrightarrow> \<not> truthy_opt (first_arg xs) \<Longrightarrow> \<not> truthy_opt (actualPath q xs)"
  by (simp add: actualPath_def)

lemma rejected_facts:
  "exit_code (rejected x msg) = 1"
  "client_calls (trace (rejected x msg)) = []"
  "logged_on ChError (trace (rejected x msg)) = [Text msg]"
  by (simp_all add: rejected_def)

lemma missing_bucket_facts:
  "exit_code missing_bucket = 1"
  "client_calls (trace missing_bucket) = []"
  "logged_on ChError (trace missing_bucket) = [Text ''Bucket name required'']"
  by (simp_all add: missing_bucket_def)

lemma bucket_missing_argument:
  assumes "arg_key ba \<noteq> []"
  shows "((arg_action ba = ''create'' \<or> arg_action ba = ''get'' \<or> arg_action ba = ''update'' \<or>
           arg_action ba = ''empty'' \<or> arg_action ba = ''delete'') \<and> \<not> truthy_opt (arg_name ba) \<longrightarrow>
            bucket_handler w ba = rejected ba ''Bucket name required'') \<and>
         (arg_action ba = ''update'' \<and> truthy_opt (arg_name ba) \<and> arg_public ba = None \<longrightarrow>
            bucket_handler w ba = rejected ba ''--public flag required for update'')"
proof -
  have 1: "(arg_action ba = ''create'' \<or> arg_action ba = ''get'' \<or> arg_action ba = ''update'' \<or>
           arg_action ba = ''empty'' \<or> arg_action ba = ''delete'') \<and> \<not> truthy_opt (arg_name ba) \<longrightarrow>
            bucket_handler w ba = rejected ba ''Bucket name required''"
    using assms by (auto simp: bucket_handler_def bucket_switch_def truthy_def)
  have 2: "arg_action ba = ''update'' \<and> truthy_opt (arg_name ba) \<and> arg_public ba = None \<longrightarrow>
            bucket_handler w ba = rejected ba ''--public flag required for update''"
    using assms
    by (cases "arg_name ba") (auto simp: bucket_handler_def bucket_switch_def updateBucket_def truthy_def)
  from 1 2 show ?thesis by blast
qed

lemma file_missing_argument:
  assumes "arg_key fa \<noteq> []"
  shows "(\<not> truthy (arg_bucket fa) \<longrightarrow> file_handler w fa = missing_bucket) \<and>
         (truthy (arg_bucket fa) \<and> (arg_action fa = ''upload'' \<or> arg_action fa = ''update'') \<and>
          \<not> truthy_opt (arg_file fa) \<longrightarrow>
            file_handler w fa = rejected fa ''File path required (use --file)'') \<and>
         (truthy (arg_bucket fa) \<and> arg_action fa = ''update'' \<and> truthy_opt (arg_file fa) \<and>
          \<not> truthy_opt (arg_path fa) \<longrightarrow>
            file_handler w fa = rejected fa ''Remote path required (use --path to specify destination)'') \<and>
         (truthy (arg_bucket fa) \<and> arg_action fa = ''download'' \<and> \<not> truthy_opt (arg_path fa) \<and>
          \<not> truthy_opt (first_arg (args_or_empty (arg_args fa))) \<longrightarrow>
            file_handler w fa = rejected fa ''Remote path required (use --path or provide as argument)'') \<and>
         (truthy (arg_bucket fa) \<and> (arg_action fa = ''info'' \<or> arg_action fa = ''exists'') \<and>
          \<not> truthy_opt (arg_path fa) \<and> \<not> truthy_opt (first_arg (args_or_empty (arg_args fa))) \<longrightarrow>
            file_handler w fa = rejected fa ''File path required (use --path or provide as argument)'') \<and>
         (truthy (arg_bucket fa) \<and> arg_action fa = ''delete'' \<and> args_or_empty (arg_args fa) = [] \<longrightarrow>
            file_handler w fa = rejected fa ''At least one path required'') \<and>
         (truthy (arg_bucket fa) \<and> (arg_action fa = ''move'' \<or> arg_action fa = ''copy'') \<and>
          (\<not> truthy_opt (arg_from fa) \<or> \<not> truthy_opt (arg_to fa)) \<longrightarrow>
            file_handler w fa = rejected fa ''Both --from and --to required'')"
proof -
  have 0: "\<not> truthy (arg_bucket fa) \<longrightarrow> file_handler w fa = missing_bucket"
    using assms by (simp add: file_handler_def truthy_def)
  have 1: "truthy (arg_bucket fa) \<and> (arg_action fa = ''upload'' \<or> arg_action fa = ''update'') \<and>
          \<not> truthy_opt (arg_file fa) \<longrightarrow>
            file_handler w fa = rejected fa ''File path required (use --file)''"
    using assms by (auto simp: file_handler_def file_switch_def truthy_def)
  have 2: "truthy (arg_bucket fa) \<and> arg_action fa = ''update'' \<and> truthy_opt (arg_file fa) \<and>
          \<not> truthy_opt (arg_path fa) \<longrightarrow>
            file_handler w fa = rejected fa ''Remote path required (use --path to specify destination)''"
    using assms
    by (cases "arg_file fa") (auto simp: file_handler_def file_switch_def truthy_def)
  have 3: "truthy (arg_bucket fa) \<and> arg_action fa = ''download'' \<and> \<not> truthy_opt (arg_path fa) \<and>
          \<not> truthy_opt (first_arg (args_or_empty (arg_args fa))) \<longrightarrow>
            file_handler w fa = rejected fa ''Remote path required (use --path or provide as argument)''"
    using assms by (auto simp: file_handler_def file_switch_def truthy_def)
  have 4: "truthy (arg_bucket fa) \<and> (arg_action fa = ''info'' \<or> arg_action fa = ''exists'') \<and>
          \<not> truthy_opt (arg_path fa) \<and> \<not> truthy_opt (first_arg (args_or_empty (arg_args fa))) \<longrightarrow>
            file_handler w fa = rejected fa ''File path required (use --path or provide as argument)''"
    using assms by (auto simp: file_handler_def file_switch_def truthy_def)
  have 5: "truthy (arg_bucket fa) \<and> arg_action fa = ''delete'' \<and> args_or_empty (arg_args fa) = [] \<longrightarrow>
            file_handler w fa = rejected fa ''At least one path required''"
    using assms by (auto simp: file_handler_def file_switch_def truthy_def)
  have 6: "truthy (arg_bucket fa) \<and> (arg_action fa = ''move'' \<or> arg_action fa = ''copy'') \<and>
          (\<not> truthy_opt (arg_from fa) \<or> \<not> truthy_opt (arg_to fa)) \<longrightarrow>
            file_handler w fa = rejected fa ''Both --from and --to required''"
    using assms by (auto simp: file_handler_def file_switch_def truthy_def)
  from 0 1 2 3 4 5 6 show ?thesis by blast
qed

lemma signed_urls_paths_empty [simp]:
  "\<not> truthy_opt p \<Longrightarrow> signed_urls_paths p xs = args_or_empty xs"
  by (cases p) (simp_all add: signed_urls_paths_def)

lemma url_missing_argument:
  assumes "arg_key ua \<noteq> []"
  shows "(\<not> truthy (arg_bucket ua) \<longrightarrow> url_handler w ua = missing_bucket) \<and>
         (truthy (arg_bucket ua) \<and> arg_action ua = ''public'' \<and> \<not> truthy_opt (arg_path ua) \<longrightarrow>
            url_handler w ua = rejected ua ''Path required for public URL'') \<and>
         (truthy (arg_bucket ua) \<and> arg_action ua = ''signed'' \<and> \<not> truthy_opt (arg_path ua) \<longrightarrow>
            url_handler w ua = rejected ua ''Path required for signed URL'') \<and>
         (truthy (arg_bucket ua) \<and> arg_action ua = ''signed-upload'' \<and> \<not> truthy_opt (arg_path ua) \<longrightarrow>
            url_handler w ua = rejected ua ''Path required for signed upload URL'') \<and>
         (truthy (arg_bucket ua) \<and> arg_action ua = ''signed-urls'' \<and> \<not> truthy_opt (arg_path ua) \<and>
          args_or_empty (arg_args ua) = [] \<longrightarrow>
            url_handler w ua = rejected ua ''At least one path required for signed URLs'')"
  using assms by (auto simp: url_handler_def url_switch_def truthy_def)

text \<open>
  Claim C4. With the credential present, a run that lacks a required argument ends with
  status 1 and one message on the error channel that names the argument, and performs no
  client operation: the bucket name of \<open>bucket create/get/update/empty/delete\<close>, the
  \<open>--public\<close> flag of \<open>bucket update\<close>, the bucket of every \<open>file\<close> and \<open>url\<close> action,
  \<open>--file\<close> of \<open>upload\<close> and \<open>update\<close>, \<open>--path\<close> of \<open>update\<close>, the path of \<open>download\<close>,
  \<open>info\<close> and \<open>exists\<close> (flag or first positional), the paths of \<open>delete\<close>, \<open>--from\<close> and
  \<open>--to\<close> of \<open>move\<close> and \<open>copy\<close>, the path of \<open>public\<close>, \<open>signed\<close> and \<open>signed-upload\<close>, and
  the paths of \<open>signed-urls\<close>. A missing argument is an absent or empty one.
\<close>

theorem missing_argument_rejected:
  assumes "arg_key ba \<noteq> []" and "arg_key fa \<noteq> []" and "arg_key ua \<noteq> []"
  shows "(((arg_action ba = ''create'' \<or> arg_action ba = ''get'' \<or> arg_action ba = ''update'' \<or>
           arg_action ba = ''empty'' \<or> arg_action ba = ''delete'') \<and> \<not> truthy_opt (arg_name ba) \<longrightarrow>
            bucket_handler w ba = rejected ba ''Bucket name required'') \<and>
         (arg_action ba = ''update'' \<and> truthy_opt (arg_name ba) \<and> arg_public ba = None \<longrightarrow>
            bucket_handler w ba = rejected ba ''--public flag required for update'')) \<and>
         ((\<not> truthy (arg_bucket fa) \<longrightarrow> file_handler w fa = missing_bucket) \<and>
         (truthy (arg_bucket fa) \<and> (arg_action fa = ''upload'' \<or> arg_action fa = ''update'') \<and>
          \<not> truthy_opt (arg_file fa) \<longrightarrow>
            file_handler w fa = rejected fa ''File path required (use --file)'') \<and>
         (truthy (arg_bucket fa) \<and> arg_action fa = ''update'' \<and> truthy_opt (arg_file fa) \<and>
          \<not> truthy_opt (arg_path fa) \<longrightarrow>
            file_handler w fa = rejected fa ''Remote path required (use --path to specify destination)'') \<and>
         (truthy (arg_bucket fa) \<and> arg_action fa = ''download'' \<and> \<not> truthy_opt (arg_path fa) \<and>
          \<not> truthy_opt (first_arg (args_or_empty (arg_args fa))) \<longrightarrow>
            file_handler w fa = rejected fa ''Remote path required (use --path or provide as argument)'') \<and>
         (truthy (arg_bucket fa) \<and> (arg_action fa = ''info'' \<or> arg_action fa = ''exists'') \<and>
          \<not> truthy_opt (arg_path fa) \<and> \<not> truthy_opt (first_arg (args_or_empty (arg_args fa))) \<longrightarrow>
            file_handler w fa = rejected fa ''File path required (use --path or provide as argument)'') \<and>
         (truthy (arg_bucket fa) \<and> arg_action fa = ''delete'' \<and> args_or_empty (arg_args fa) = [] \<longrightarrow>
            file_handler w fa = rejected fa ''At least one path required'') \<and>
         (truthy (arg_bucket fa) \<and> (arg_action fa = ''move'' \<or> arg_action fa = ''copy'') \<and>
          (\<not> truthy_opt (arg_from fa) \<or> \<not> truthy_opt (arg_to fa)) \<longrightarrow>
            file_handler w fa = rejected fa ''Both --from and --to required'')) \<and>
         ((\<not> truthy (arg_bucket ua) \<longrightarrow> url_handler w ua = missing_bucket) \<and>
         (truthy (arg_bucket ua) \<and> arg_action ua = ''public'' \<and> \<not> truthy_opt (arg_path ua) \<longrightarrow>
            url_handler w ua = rejected ua ''Path required for public URL'') \<and>
         (truthy (arg_bucket ua) \<and> arg_action ua = ''signed'' \<and> \<not> truthy_opt (arg_path ua) \<longrightarrow>
            url_handler w ua = rejected ua ''Path required for signed URL'') \<and>
         (truthy (arg_bucket ua) \<and> arg_action ua = ''signed-upload'' \<and> \<not> truthy_opt (arg_path ua) \<longrightarrow>
            url_handler w ua = rejected ua ''Path required for signed upload URL'') \<and>
         (truthy (arg_bucket ua) \<and> arg_action ua = ''signed-urls'' \<and> \<not> truthy_opt (arg_path ua) \<and>
          args_or_empty (arg_args ua) = [] \<longrightarrow>
            url_handler w ua = rejected ua ''At least one path required for signed URLs'')) \<and>
         exit_code (rejected x msg) = 1 \<and>
         client_calls (trace (rejected x msg)) = [] \<and>
         logged_on ChError (trace (rejected x msg)) = [Text msg] \<and>
         exit_code missing_bucket = 1 \<and>
         client_calls (trace missing_bucket) = [] \<and>
         logged_on ChError (trace missing_bucket) = [Text ''Bucket name required'']"
  using bucket_missing_argument [OF assms(1), of w] file_missing_argument [OF assms(2), of w]
    url_missing_argument [OF assms(3), of w] rejected_facts [of x msg] missing_bucket_facts
  by blast

theorem missing_argument_rejected_witness:
  "bucket_handler quiet (bucket_args ''create'') =
     rejected (bucket_args ''create'') ''Bucket name required'' \<and>
   bucket_handler quiet ((bucket_args ''update'')\<lparr>arg_name := Some ''docs''\<rparr>) =
     rejected ((bucket_args ''update'')\<lparr>arg_name := Some ''docs''\<rparr>) ''--public flag required for update'' \<and>
   file_handler quiet ((file_args ''list'')\<lparr>arg_bucket := []\<rparr>) = missing_bucket \<and>
   file_handler quiet ((file_args ''move'')\<lparr>arg_from := Some ''a.txt''\<rparr>) =
     rejected ((file_args ''move'')\<lparr>arg_from := Some ''a.txt''\<rparr>) ''Both --from and --to required'' \<and>
   file_handler quiet ((file_args ''delete'')\<lparr>arg_args := Some []\<rparr>) =
     rejected ((file_args ''delete'')\<lparr>arg_args := Some []\<rparr>) ''At least one path required'' \<and>
   file_handler quiet (file_args ''download'') =
     rejected (file_args ''download'') ''Remote path required (use --path or provide as argument)'' \<and>
   url_handler quiet (url_args ''signed-urls'') =
     rejected (url_args ''signed-urls'') ''At least one path required for signed URLs'' \<and>
   url_handler quiet (url_args ''public'') =
     rejected (url_args ''public'') ''Path required for public URL'' \<and>
   exit_code (rejected (url_args ''public'') ''Path required for public URL'') = 1 \<and>
   client_calls (trace (rejected (url_args ''public'') ''Path required for public URL'')) = [] \<and>
   logged_on ChError (trace (rejected (url_args ''public'') ''Path required for public URL'')) =
     [Text ''Path required for public URL'']"
proof -
  let ?bu = "(bucket_args ''update'')\<lparr>arg_name := Some ''docs''\<rparr>"
  let ?fl = "(file_args ''list'')\<lparr>arg_bucket := []\<rparr>"
  let ?fm = "(file_args ''move'')\<lparr>arg_from := Some ''a.txt''\<rparr>"
  let ?fd = "(file_args ''delete'')\<lparr>arg_args := Some []\<rparr>"
  have kb: "arg_key (bucket_args ''create'') \<noteq> []" "arg_key ?bu \<noteq> []"
    by (simp_all add: bucket_args_def)
  have kf: "arg_key ?fl \<noteq> []" "arg_key ?fm \<noteq> []" "arg_key ?fd \<noteq> []"
    "arg_key (file_args ''download'') \<noteq> []"
    by (simp_all add: file_args_def)
  have ku: "arg_key (url_args ''signed-urls'') \<noteq> []" "arg_key (url_args ''public'') \<noteq> []"
    by (simp_all add: url_args_def)
  from missing_argument_rejected [OF kb(1) kf(1) ku(1), of quiet "url_args ''public''" "''Path required for public URL''"]
  have 1: "bucket_handler quiet (bucket_args ''create'') =
     rejected (bucket_args ''create'') ''Bucket name required''"
    and 3: "file_handler quiet ?fl = missing_bucket"
    and 7: "url_handler quiet (url_args ''signed-urls'') =
     rejected (url_args ''signed-urls'') ''At least one path required for signed URLs''"
    by (simp_all add: bucket_args_def file_args_def url_args_def truthy_def args_or_empty_def)
  from missing_argument_rejected [OF kb(2) kf(2) ku(2), of quiet "url_args ''public''" "''Path required for public URL''"]
  have 2: "bucket_handler quiet ?bu = rejected ?bu ''--public flag required for update''"
    and 4: "file_handler quiet ?fm = rejected ?fm ''Both --from and --to required''"
    and 8: "url_handler quiet (url_args ''public'') =
     rejected (url_args ''public'') ''Path required for public URL''"
    and 9: "exit_code (rejected (url_args ''public'') ''Path required for public URL'') = 1"
      "client_calls (trace (rejected (url_args ''public'') ''Path required for public URL'')) = []"
      "logged_on ChError (trace (rejected (url_args ''public'') ''Path required for public URL'')) =
         [Text ''Path required for public URL'']"
    by (simp_all add: bucket_args_def file_args_def url_args_def truthy_def)
  from missing_argument_rejected [OF kb(1) kf(3) ku(1), of quiet "url_args ''public''" "''Path required for public URL''"]
  have 5: "file_handler quiet ?fd = rejected ?fd ''At least one path required''"
    by (simp add: file_args_def truthy_def args_or_empty_def)
  from missing_argument_rejected [OF kb(1) kf(4) ku(1), of quiet "url_args ''public''" "''Path required for public URL''"]
  have 6: "file_handler quiet (file_args ''download'') =
     rejected (file_args ''download'') ''Remote path required (use --path or provide as argument)''"
    by (simp add: file_args_def truthy_def args_or_empty_def first_arg_def)
  from 1 2 3 4 5 6 7 8 9 show ?thesis by blast
qed

subsection \<open>Errors of the client\<close>

lemma no_call_log_json_if [simp]: "Called c r \<notin> set (log_json_if j p)"
  by (simp add: log_json_if_def)

lemma no_call_bucket_lines [simp]: "Called c r \<notin> set (bucket_lines w b)"
  by (simp add: bucket_lines_def Let_def)

lemma no_call_file_lines [simp]: "Called c r \<notin> set (file_lines w f)"
  by (simp add: file_lines_def Let_def split: option.splits)

lemma no_call_item_lines [simp]: "Called c r \<notin> set (item_lines i)"
  by (simp add: item_lines_def)

lemma on_data_error:
  assumes "failed_with c' e (on_data c r rest)" and "\<And>d. Called c' (Some e) \<notin> set (rest d)"
  shows "on_data c r rest' = on_data c r rest \<and> thrown_quietly e (on_data c r rest)"
proof (cases r)
  case (Inl e0)
  with assms(1) have "e0 = e" by (simp add: failed_with_def)
  with Inl show ?thesis by (simp add: thrown_quietly_def)
next
  case (Inr d)
  with assms show ?thesis by (simp add: failed_with_def)
qed

lemma prepend_error:
  assumes "failed_with c e (prepend evs r)" and "Called c (Some e) \<notin> set evs"
    and "logged_on ChError evs = []"
    and "failed_with c e r \<Longrightarrow> r' = r \<and> thrown_quietly e r"
  shows "prepend evs r' = prepend evs r \<and> thrown_quietly e (prepend evs r)"
proof -
  from assms(1,2) have "failed_with c e r" by (simp add: failed_with_def)
  with assms(4) have "r' = r" and "thrown_quietly e r" by simp_all
  with assms(3) show ?thesis by (simp add: thrown_quietly_def)
qed

lemma failed_with_throw [simp]: "\<not> failed_with c e (throw msg)"
  by (simp add: failed_with_def)

lemma failed_with_pair_Nil [simp]: "\<not> failed_with c e ([], x)"
  by (simp add: failed_with_def)

lemma listBuckets_error:
  "failed_with c e (listBuckets w j) \<Longrightarrow>
   listBuckets w j' = listBuckets w j \<and> thrown_quietly e (listBuckets w j)"
  unfolding listBuckets_def by (rule on_data_error) simp_all

lemma createBucket_error:
  "failed_with c e (createBucket w n p j) \<Longrightarrow>
   createBucket w n p j' = createBucket w n p j \<and> thrown_quietly e (createBucket w n p j)"
  unfolding createBucket_def Let_def by (rule on_data_error) simp_all

lemma getBucket_error:
  "failed_with c e (getBucket w n j) \<Longrightarrow>
   getBucket w n j' = getBucket w n j \<and> thrown_quietly e (getBucket w n j)"
  unfolding getBucket_def by (rule on_data_error) (simp_all split: option.splits)

lemma updateBucket_error:
  "failed_with c e (updateBucket w n p j) \<Longrightarrow>
   updateBucket w n p j' = updateBucket w n p j \<and> thrown_quietly e (updateBucket w n p j)"
proof (cases p)
  case None
  then show "failed_with c e (updateBucket w n p j) \<Longrightarrow> ?thesis"
    by (simp add: updateBucket_def)
next
  case (Some b)
  then show "failed_with c e (updateBucket w n p j) \<Longrightarrow> ?thesis"
    unfolding updateBucket_def by simp (rule on_data_error, simp_all)
qed

lemma emptyBucket_error:
  "failed_with c e (emptyBucket w n) \<Longrightarrow> thrown_quietly e (emptyBucket w n)"
  unfolding emptyBucket_def by (rule on_data_error [THEN conjunct2]) simp_all

lemma deleteBucket_error:
  "failed_with c e (deleteBucket w n) \<Longrightarrow> thrown_quietly e (deleteBucket w n)"
  unfolding deleteBucket_def by (rule on_data_error [THEN conjunct2]) simp_all

lemma require_error:
  assumes "failed_with c e (require x msg rest)"
    and "\<And>s. failed_with c e (rest s) \<Longrightarrow> rest' s = rest s \<and> thrown_quietly e (rest s)"
  shows "require x msg rest' = require x msg rest \<and> thrown_quietly e (require x msg rest)"
  using assms by (cases x) (auto simp: require_def)

lemma bucket_switch_error:
  assumes "failed_with c e (bucket_switch w a)"
  shows "bucket_switch w (a\<lparr>arg_json := j\<rparr>) = bucket_switch w a \<and> thrown_quietly e (bucket_switch w a)"
proof -
  consider "arg_action a = ''list''" | "arg_action a = ''create''" | "arg_action a = ''get''"
    | "arg_action a = ''update''" | "arg_action a = ''empty''" | "arg_action a = ''delete''"
    | "arg_action a \<noteq> ''list'' \<and> arg_action a \<noteq> ''create'' \<and> arg_action a \<noteq> ''get'' \<and>
       arg_action a \<noteq> ''update'' \<and> arg_action a \<noteq> ''empty'' \<and> arg_action a \<noteq> ''delete''"
    by auto
  then show ?thesis
  proof cases
    case 1
    with assms show ?thesis
      by (simp add: bucket_switch_def) (erule listBuckets_error)
  next
    case 2
    with assms show ?thesis
      by (simp add: bucket_switch_def) (rule require_error, assumption, erule createBucket_error)
  next
    case 3
    with assms show ?thesis
      by (simp add: bucket_switch_def) (rule require_error, assumption, erule getBucket_error)
  next
    case 4
    with assms show ?thesis
      by (simp add: bucket_switch_def) (rule require_error, assumption, erule updateBucket_error)
  next
    case 5
    with assms show ?thesis
      by (simp add: bucket_switch_def)
         (rule require_error [THEN conjunct2], assumption, rule conjI, rule refl, erule emptyBucket_error)
  next
    case 6
    with assms show ?thesis
      by (simp add: bucket_switch_def)
         (rule require_error [THEN conjunct2], assumption, rule conjI, rule refl, erule deleteBucket_error)
  next
    case 7
    with assms show ?thesis
      by (simp add: bucket_switch_def)
  qed
qed


lemma uploadFile_error:
  assumes "failed_with c e (uploadFile w b f p u j)"
  shows "uploadFile w b f p u j' = uploadFile w b f p u j \<and> thrown_quietly e (uploadFile w b f p u j)"
proof (cases "fs_readFileSync w f")
  case (Inl e0)
  with assms show ?thesis by (simp add: uploadFile_def failed_with_def)
next
  case r: (Inr buf)
  show ?thesis
  proof (cases "fs_statSync w f")
    case (Inl e0)
    with r assms show ?thesis by (simp add: uploadFile_def failed_with_def)
  next
    case (Inr n)
    with r assms show ?thesis
      by (simp add: uploadFile_def Let_def)
         (rule prepend_error, assumption, simp, simp, rule on_data_error, assumption, simp)
  qed
qed

lemma updateFile_error:
  assumes "failed_with c e (updateFile w b f p u j)"
  shows "updateFile w b f p u j' = updateFile w b f p u j \<and> thrown_quietly e (updateFile w b f p u j)"
proof (cases "fs_readFileSync w f")
  case (Inl e0)
  with assms show ?thesis by (simp add: updateFile_def failed_with_def)
next
  case r: (Inr buf)
  show ?thesis
  proof (cases "fs_statSync w f")
    case (Inl e0)
    with r assms show ?thesis by (simp add: updateFile_def failed_with_def)
  next
    case (Inr n)
    with r assms show ?thesis
      by (simp add: updateFile_def)
         (rule prepend_error, assumption, simp, simp, rule on_data_error, assumption, simp)
  qed
qed

lemma downloadFile_error:
  assumes "failed_with c e (downloadFile w b p out j)"
  shows "downloadFile w b p out j' = downloadFile w b p out j \<and>
         thrown_quietly e (downloadFile w b p out j)"
proof (cases "api_download w b p")
  case (Inl e0)
  with assms show ?thesis
    by (auto simp: downloadFile_def failed_with_def thrown_quietly_def)
next
  case (Inr buf)
  with assms show ?thesis
    by (cases "fs_writeFileSync w (or_else out (path_basename p)) buf")
       (simp_all add: downloadFile_def failed_with_def Let_def)
qed

lemma listFiles_error:
  "failed_with c e (listFiles w b p l s j) \<Longrightarrow>
   listFiles w b p l s j' = listFiles w b p l s j \<and> thrown_quietly e (listFiles w b p l s j)"
  unfolding listFiles_def by (rule on_data_error) simp_all

lemma deleteFiles_error:
  "failed_with c e (deleteFiles w b ps j) \<Longrightarrow>
   deleteFiles w b ps j' = deleteFiles w b ps j \<and> thrown_quietly e (deleteFiles w b ps j)"
  unfolding deleteFiles_def
  by (rule prepend_error, assumption, simp, simp, rule on_data_error, assumption) auto

lemma moveFile_error:
  "failed_with c e (moveFile w b f t j) \<Longrightarrow>
   moveFile w b f t j' = moveFile w b f t j \<and> thrown_quietly e (moveFile w b f t j)"
  unfolding moveFile_def by (rule on_data_error) simp_all

lemma copyFile_error:
  "failed_with c e (copyFile w b f t j) \<Longrightarrow>
   copyFile w b f t j' = copyFile w b f t j \<and> thrown_quietly e (copyFile w b f t j)"
  unfolding copyFile_def by (rule on_data_error) simp_all

lemma getFileInfo_error:
  "failed_with c e (getFileInfo w b p j) \<Longrightarrow>
   getFileInfo w b p j' = getFileInfo w b p j \<and> thrown_quietly e (getFileInfo w b p j)"
  unfolding getFileInfo_def
  by (rule prepend_error, assumption, simp, simp, rule on_data_error, assumption) simp

lemma checkFileExists_error [simp]: "\<not> failed_with c e (checkFileExists w b p j)"
  by (auto simp: failed_with_def checkFileExists_def Let_def)

lemma require_both_error:
  assumes "failed_with c e (require_both x y msg rest)"
    and "\<And>s t. failed_with c e (rest s t) \<Longrightarrow> rest' s t = rest s t \<and> thrown_quietly e (rest s t)"
  shows "require_both x y msg rest' = require_both x y msg rest \<and>
         thrown_quietly e (require_both x y msg rest)"
  using assms by (cases x; cases y) (auto simp: require_both_def require_def split: if_splits)

lemma file_switch_error:
  assumes "failed_with c e (file_switch w a)"
  shows "file_switch w (a\<lparr>arg_json := j\<rparr>) = file_switch w a \<and> thrown_quietly e (file_switch w a)"
proof -
  consider "arg_action a = ''upload''" | "arg_action a = ''download''" | "arg_action a = ''list''"
    | "arg_action a = ''delete''" | "arg_action a = ''move''" | "arg_action a = ''copy''"
    | "arg_action a = ''info''" | "arg_action a = ''exists''" | "arg_action a = ''update''"
    | "arg_action a \<noteq> ''upload'' \<and> arg_action a \<noteq> ''download'' \<and> arg_action a \<noteq> ''list'' \<and>
       arg_action a \<noteq> ''delete'' \<and> arg_action a \<noteq> ''move'' \<and> arg_action a \<noteq> ''copy'' \<and>
       arg_action a \<noteq> ''info'' \<and> arg_action a \<noteq> ''exists'' \<and> arg_action a \<noteq> ''update''"
    by auto
  then show ?thesis
  proof cases
    case 1
    with assms show ?thesis
      by (simp add: file_switch_def) (rule require_error, assumption, erule uploadFile_error)
  next
    case 2
    with assms show ?thesis
      by (simp add: file_switch_def) (rule require_error, assumption, erule downloadFile_error)
  next
    case 3
    with assms show ?thesis
      by (simp add: file_switch_def) (erule listFiles_error)
  next
    case 4
    with assms show ?thesis
      by (cases "args_or_empty (arg_args a) = []")
         (simp_all add: file_switch_def deleteFiles_error [where j' = j])
  next
    case 5
    with assms show ?thesis
      by (simp add: file_switch_def) (rule require_both_error, assumption, erule moveFile_error)
  next
    case 6
    with assms show ?thesis
      by (simp add: file_switch_def) (rule require_both_error, assumption, erule copyFile_error)
  next
    case 7
    with assms show ?thesis
      by (simp add: file_switch_def) (rule require_error, assumption, erule getFileInfo_error)
  next
    case 8
    with assms have "failed_with c e (require (actualPath (arg_path a) (args_or_empty (arg_args a)))
        ''File path required (use --path or provide as argument)''
        (\<lambda>p. checkFileExists w (arg_bucket a) p (arg_json a)))"
      by (simp add: file_switch_def)
    then have False
      by (cases "actualPath (arg_path a) (args_or_empty (arg_args a))") (simp_all add: require_def split: if_splits)
    then show ?thesis ..
  next
    case 9
    with assms show ?thesis
      by (simp add: file_switch_def)
         (rule require_error, assumption, rule require_error, assumption, erule updateFile_error)
  next
    case 10
    with assms show ?thesis
      by (simp add: file_switch_def)
  qed
qed

lemma getPublicUrl_error [simp]: "\<not> failed_with c e (getPublicUrl w b p d j)"
  by (auto simp: failed_with_def getPublicUrl_def Let_def)

lemma getSignedUrl_error:
  "failed_with c e (getSignedUrl w b p x d j) \<Longrightarrow>
   getSignedUrl w b p x d j' = getSignedUrl w b p x d j \<and> thrown_quietly e (getSignedUrl w b p x d j)"
  unfolding getSignedUrl_def by (rule on_data_error) simp_all

lemma getSignedUploadUrl_error:
  "failed_with c e (getSignedUploadUrl w b p j) \<Longrightarrow>
   getSignedUploadUrl w b p j' = getSignedUploadUrl w b p j \<and>
   thrown_quietly e (getSignedUploadUrl w b p j)"
  unfolding getSignedUploadUrl_def by (rule on_data_error) simp_all

lemma getSignedUrls_error:
  "failed_with c e (getSignedUrls w b ps x d j) \<Longrightarrow>
   getSignedUrls w b ps x d j' = getSignedUrls w b ps x d j \<and>
   thrown_quietly e (getSignedUrls w b ps x d j)"
  unfolding getSignedUrls_def
  by (rule prepend_error, assumption, simp, simp, rule on_data_error, assumption) auto

lemma url_switch_error:
  assumes "failed_with c e (url_switch w a)"
  shows "url_switch w (a\<lparr>arg_json := j\<rparr>) = url_switch w a \<and> thrown_quietly e (url_switch w a)"
proof -
  consider "arg_action a = ''public''" | "arg_action a = ''signed''"
    | "arg_action a = ''signed-upload''" | "arg_action a = ''signed-urls''"
    | "arg_action a \<noteq> ''public'' \<and> arg_action a \<noteq> ''signed'' \<and>
       arg_action a \<noteq> ''signed-upload'' \<and> arg_action a \<noteq> ''signed-urls''"
    by auto
  then show ?thesis
  proof cases
    case 1
    with assms have "failed_with c e (require (arg_path a) ''Path required for public URL''
        (\<lambda>p. getPublicUrl w (arg_bucket a) p (arg_download a) (arg_json a)))"
      by (simp add: url_switch_def)
    then have False
      by (cases "arg_path a") (simp_all add: require_def split: if_splits)
    then show ?thesis ..
  next
    case 2
    with assms show ?thesis
      by (simp add: url_switch_def) (rule require_error, assumption, erule getSignedUrl_error)
  next
    case 3
    with assms show ?thesis
      by (simp add: url_switch_def) (rule require_error, assumption, erule getSignedUploadUrl_error)
  next
    case 4
    with assms show ?thesis
      by (cases "signed_urls_paths (arg_path a) (arg_args a) = []")
         (simp_all add: url_switch_def getSignedUrls_error [where j' = j])
  next
    case 5
    with assms show ?thesis
      by (simp add: url_switch_def)
  qed
qed




lemma handler_error:
  assumes "Called c (Some e) \<in> set (trace (finish (prepend [Constructed u k] r)))"
    and "\<not> is_exists c"
    and "failed_with c e r \<Longrightarrow> r' = r \<and> thrown_quietly e r"
  shows "finish (prepend [Constructed u k] r') = finish (prepend [Constructed u k] r) \<and>
         exit_code (finish (prepend [Constructed u k] r)) = 1 \<and>
         last (trace (finish (prepend [Constructed u k] r))) = Logged ChError (Text (message e)) \<and>
         logged_on ChError (trace (finish (prepend [Constructed u k] r))) = [Text (message e)]"
proof -
  from assms(1) have "Called c (Some e) \<in> set (fst r)"
    by (auto simp: trace_finish split: option.splits)
  with assms(2) have "failed_with c e r" by (simp add: failed_with_def)
  with assms(3) have "r' = r" and "snd r = Some e" and "logged_on ChError (fst r) = []"
    by (simp_all add: thrown_quietly_def)
  then show ?thesis by (simp add: finish_def)
qed

lemma no_call_missing [simp]:
  "Called c r \<notin> set (trace missing_key)" "Called c r \<notin> set (trace missing_bucket)"
  by (simp_all add: missing_key_def missing_bucket_def)

lemma main_error:
  assumes "Called c (Some e) \<in> set (trace (main w cmd))" and "\<not> is_exists c"
  shows "main w (set_json j cmd) = main w cmd \<and> exit_code (main w cmd) = 1 \<and>
         last (trace (main w cmd)) = Logged ChError (Text (message e)) \<and>
         logged_on ChError (trace (main w cmd)) = [Text (message e)]"
proof (cases cmd)
  case (BucketCmd a)
  show ?thesis
  proof (cases "truthy (arg_key a)")
    case True
    with BucketCmd assms have m: "Called c (Some e) \<in>
        set (trace (finish (prepend [Constructed (arg_url a) (arg_key a)] (bucket_switch w a))))"
      by (simp add: bucket_handler_def)
    from handler_error [OF m assms(2) bucket_switch_error [of c e w a j]] BucketCmd True
    show ?thesis by (simp add: bucket_handler_def)
  next
    case False
    with BucketCmd assms show ?thesis by (simp add: bucket_handler_def)
  qed
next
  case (FileCmd a)
  show ?thesis
  proof (cases "truthy (arg_key a) \<and> truthy (arg_bucket a)")
    case True
    with FileCmd assms have m: "Called c (Some e) \<in>
        set (trace (finish (prepend [Constructed (arg_url a) (arg_key a)] (file_switch w a))))"
      by (simp add: file_handler_def)
    from handler_error [OF m assms(2) file_switch_error [of c e w a j]] FileCmd True
    show ?thesis by (simp add: file_handler_def)
  next
    case False
    with FileCmd assms show ?thesis by (auto simp: file_handler_def)
  qed
next
  case (UrlCmd a)
  show ?thesis
  proof (cases "truthy (arg_key a) \<and> truthy (arg_bucket a)")
    case True
    with UrlCmd assms have m: "Called c (Some e) \<in>
        set (trace (finish (prepend [Constructed (arg_url a) (arg_key a)] (url_switch w a))))"
      by (simp add: url_handler_def)
    from handler_error [OF m assms(2) url_switch_error [of c e w a j]] UrlCmd True
    show ?thesis by (simp add: url_handler_def)
  next
    case False
    with UrlCmd assms show ?thesis by (auto simp: url_handler_def)
  qed
qed

lemma exists_run:
  assumes "arg_key a \<noteq> []" and "arg_bucket a \<noteq> []" and "arg_action a = ''exists''"
    and "actualPath (arg_path a) (args_or_empty (arg_args a)) = Some p" and "p \<noteq> []"
  shows "file_handler w a =
           \<lparr>trace = [Constructed (arg_url a) (arg_key a),
                      Called (Exists (arg_bucket a) p) (snd (api_exists w (arg_bucket a) p))] @
                     (if arg_json a
                      then [Logged ChLog (Stringified (PJson
                              (JObj [(''exists'', JBool (fst (api_exists w (arg_bucket a) p))),
                                     (''error'', exists_error_json (snd (api_exists w (arg_bucket a) p)))])))]
                      else if fst (api_exists w (arg_bucket a) p)
                      then [Logged ChSuccess (Text (''File exists: '' @ p))]
                      else [Logged ChInfo (Text (''File does not exist: '' @ p))]),
            exit_code = 0\<rparr>"
  using assms
  by (simp add: file_handler_def file_switch_def truthy_def checkFileExists_def Let_def
      finish_def prepend_def)

text \<open>
  Claim C1, as the code has it. When a client operation other than \<open>exists\<close> returns an
  error, the run ends with status 1, its last effect is the error's message on the error
  channel (the only message there), and the run is the same with and without \<open>--json\<close>.
  \<open>file exists\<close> is the exception: whatever the client returns, the run ends with status 0
  and nothing on the error channel; with \<open>--json\<close> the error's message is the \<open>error\<close> field
  of the object printed on the log channel.
\<close>

theorem client_error_exits_unless_exists:
  "(Called c (Some e) \<in> set (trace (main w cmd)) \<and> \<not> is_exists c \<longrightarrow>
      exit_code (main w cmd) = 1 \<and>
      last (trace (main w cmd)) = Logged ChError (Text (message e)) \<and>
      logged_on ChError (trace (main w cmd)) = [Text (message e)] \<and>
      main w (set_json j cmd) = main w cmd) \<and>
   (arg_key a \<noteq> [] \<and> arg_bucket a \<noteq> [] \<and> arg_action a = ''exists'' \<and>
    actualPath (arg_path a) (args_or_empty (arg_args a)) = Some p \<and> p \<noteq> [] \<longrightarrow>
      exit_code (main w (FileCmd a)) = 0 \<and>
      logged_on ChError (trace (main w (FileCmd a))) = [] \<and>
      client_calls (trace (main w (FileCmd a))) = [Exists (arg_bucket a) p] \<and>
      (arg_json a \<longrightarrow>
         logged_on ChLog (trace (main w (FileCmd a))) =
           [Stringified (PJson
              (JObj [(''exists'', JBool (fst (api_exists w (arg_bucket a) p))),
                     (''error'', exists_error_json (snd (api_exists w (arg_bucket a) p)))]))])) \<and>
   (message e \<noteq> [] \<longrightarrow> exists_error_json (Some e) = JStr (message e))"
proof -
  have 1: "Called c (Some e) \<in> set (trace (main w cmd)) \<and> \<not> is_exists c \<longrightarrow>
      exit_code (main w cmd) = 1 \<and>
      last (trace (main w cmd)) = Logged ChError (Text (message e)) \<and>
      logged_on ChError (trace (main w cmd)) = [Text (message e)] \<and>
      main w (set_json j cmd) = main w cmd"
    using main_error [of c e w cmd j] by blast
  have 2: "arg_key a \<noteq> [] \<and> arg_bucket a \<noteq> [] \<and> arg_action a = ''exists'' \<and>
    actualPath (arg_path a) (args_or_empty (arg_args a)) = Some p \<and> p \<noteq> [] \<longrightarrow>
      exit_code (main w (FileCmd a)) = 0 \<and>
      logged_on ChError (trace (main w (FileCmd a))) = [] \<and>
      client_calls (trace (main w (FileCmd a))) = [Exists (arg_bucket a) p] \<and>
      (arg_json a \<longrightarrow>
         logged_on ChLog (trace (main w (FileCmd a))) =
           [Stringified (PJson
              (JObj [(''exists'', JBool (fst (api_exists w (arg_bucket a) p))),
                     (''error'', exists_error_json (snd (api_exists w (arg_bucket a) p)))]))])"
    by (auto simp: exists_run)
  have 3: "message e \<noteq> [] \<longrightarrow> exists_error_json (Some e) = JStr (message e)"
    by (simp add: exists_error_json_def truthy_def)
  from 1 2 3 show ?thesis by blast
qed

text \<open>
  \<open>file exists\<close> when the client returns an error: the call with its error is in the
  trace, yet the status is 0 and the error channel is empty, in text and in JSON mode.
\<close>

theorem exists_error_counterexample:
  "Called (Exists ''test-bucket'' ''a.txt'') (Some (JsError ''Object not found'')) \<in>
     set (trace (main exists_fails (FileCmd ((file_args ''exists'')\<lparr>arg_path := Some ''a.txt''\<rparr>)))) \<and>
   exit_code (main exists_fails (FileCmd ((file_args ''exists'')\<lparr>arg_path := Some ''a.txt''\<rparr>))) = 0 \<and>
   logged_on ChError
     (trace (main exists_fails (FileCmd ((file_args ''exists'')\<lparr>arg_path := Some ''a.txt''\<rparr>)))) = [] \<and>
   exit_code (main exists_fails
     (FileCmd ((file_args ''exists'')\<lparr>arg_path := Some ''a.txt'', arg_json := True\<rparr>))) = 0 \<and>
   logged_on ChError (trace (main exists_fails
     (FileCmd ((file_args ''exists'')\<lparr>arg_path := Some ''a.txt'', arg_json := True\<rparr>)))) = []"
  by (simp add: file_handler_def file_switch_def file_args_def truthy_def checkFileExists_def
      Let_def actualPath_def exists_fails_def quiet_def trace_finish exit_code_finish)

theorem client_error_exits_unless_exists_witness:
  "Called (ListFiles ''test-bucket'' [] 100 None) (Some (JsError ''Storage error'')) \<in>
     set (trace (main list_fails (FileCmd (file_args ''list'')))) \<and>
   exit_code (main list_fails (FileCmd (file_args ''list''))) = 1 \<and>
   last (trace (main list_fails (FileCmd (file_args ''list'')))) = Logged ChError (Text ''Storage error'') \<and>
   main list_fails (set_json True (FileCmd (file_args ''list''))) =
     main list_fails (FileCmd (file_args ''list'')) \<and>
   exit_code (main exists_fails
     (FileCmd ((file_args ''exists'')\<lparr>arg_path := Some ''a.txt'', arg_json := True\<rparr>))) = 0 \<and>
   logged_on ChLog (trace (main exists_fails
     (FileCmd ((file_args ''exists'')\<lparr>arg_path := Some ''a.txt'', arg_json := True\<rparr>)))) =
     [Stringified (PJson (JObj [(''exists'', JBool False), (''error'', JStr ''Object not found'')]))]"
proof -
  let ?l = "FileCmd (file_args ''list'')"
  let ?x = "(file_args ''exists'')\<lparr>arg_path := Some ''a.txt'', arg_json := True\<rparr>"
  let ?c = "ListFiles ''test-bucket'' [] 100 None"
  let ?e = "JsError ''Storage error''"
  let ?o = "JsError ''Object not found''"
  have c: "Called ?c (Some ?e) \<in> set (trace (main list_fails ?l))"
    by (simp add: file_handler_def file_switch_def file_args_def truthy_def listFiles_def
        list_fails_def quiet_def trace_finish)
  have n: "\<not> is_exists ?c" by simp
  have x: "arg_key ?x \<noteq> []" "arg_bucket ?x \<noteq> []" "arg_action ?x = ''exists''"
    "actualPath (arg_path ?x) (args_or_empty (arg_args ?x)) = Some ''a.txt''" "''a.txt'' \<noteq> []"
    "arg_json ?x" "arg_bucket ?x = ''test-bucket''"
    by (simp_all add: file_args_def actualPath_def truthy_def)
  have a: "api_exists exists_fails ''test-bucket'' ''a.txt'' = (False, Some ?o)"
    by (simp add: exists_fails_def)
  have m: "message ?o \<noteq> []" by simp
  note t = client_error_exits_unless_exists [of ?c ?e list_fails ?l True ?x "''a.txt''"]
  from t c n have 1: "exit_code (main list_fails ?l) = 1"
    and 2: "last (trace (main list_fails ?l)) = Logged ChError (Text ''Storage error'')"
    and 3: "main list_fails (set_json True ?l) = main list_fails ?l"
    by simp_all
  note t' = client_error_exits_unless_exists [of ?c ?o exists_fails ?l True ?x "''a.txt''"]
  from t' x a m have 4: "exit_code (main exists_fails (FileCmd ?x)) = 0"
    and 5: "logged_on ChLog (trace (main exists_fails (FileCmd ?x))) =
     [Stringified (PJson (JObj [(''exists'', JBool False), (''error'', JStr ''Object not found'')]))]"
    by simp_all
  from c 1 2 3 4 5 show ?thesis by blast
qed

end
